theory Spec2Isabelle
  imports Main "HOL-Library.Word" "HOL-Library.AList"
begin

section \<open>Workload API client (workloadapi/client.go)\<close>

text \<open>
  A shallow embedding of the Workload API client of go-spiffe. Go values are HOL values,
  a Go \<^verbatim>\<open>(T, error)\<close> result is a sum with the error on the left, a run-time panic
  is a value of its own, and everything the client does to the outside world (remote
  calls, log lines, observer callbacks, timers) is appended to a trace kept in the
  client's state next to the backoff the \<^verbatim>\<open>Client\<close> struct holds.
\<close>

subsection \<open>Errors, status codes, panics\<close>

type_synonym bytes = "8 word list"

text \<open>The status codes of \<^verbatim>\<open>google.golang.org/grpc/codes\<close>.\<close>

datatype code =
    OK | Canceled | Unknown | InvalidArgument | DeadlineExceeded | NotFound
  | AlreadyExists | PermissionDenied | ResourceExhausted | FailedPrecondition
  | Aborted | OutOfRange | Unimplemented | Internal | Unavailable | DataLoss
  | Unauthenticated

text \<open>
  A non-nil Go \<^verbatim>\<open>error\<close>: a gRPC status error with its code and message, an error made
  by \<^verbatim>\<open>errors.New\<close> (or by a library) with its text, one made by \<^verbatim>\<open>fmt.Errorf\<close> with
  its format and argument, or one of the two errors \<^verbatim>\<open>ctx.Err()\<close> gives.
\<close>

datatype error =
    StatusError code string
  | ErrorNew string
  | ErrorFmt string string
  | ContextCanceled
  | ContextDeadlineExceeded

text \<open>
  \<^verbatim>\<open>status.Code(err)\<close> for a non-nil error: the code of a status error,
  \<^verbatim>\<open>codes.Unknown\<close> for every other error.
\<close>

fun status_Code :: "error \<Rightarrow> code" where
  "status_Code (StatusError c msg) = c"
| "status_Code e = Unknown"

text \<open>Go's run-time panic on a slice index: the index and the slice's length.\<close>

datatype panic = IndexOutOfRange nat nat

datatype fault = Err error | Panic panic

subsection \<open>Protocol messages\<close>

text \<open>
  The messages of \<^verbatim>\<open>proto/spiffe/workload\<close>. A Go map field is the list of its
  entries in the order the \<^verbatim>\<open>range\<close> loop visits them.
\<close>

record X509SVID =
  SpiffeId :: string
  X509Svid :: bytes
  X509SvidKey :: bytes
  Bundle :: bytes

record X509SVIDResponse =
  Svids :: "X509SVID list"
  FederatedBundles :: "(string \<times> bytes) list"

record JWTSVID =
  jwt_SpiffeId :: string
  Svid :: string

record JWTSVIDResponse =
  jwt_Svids :: "JWTSVID list"

record JWTBundlesResponse =
  jwt_Bundles :: "(string \<times> bytes) list"

record ValidateJWTSVIDResponse =
  validated_SpiffeId :: string

datatype request =
    X509SVIDRequest
  | JWTSVIDRequest string "string list"
  | JWTBundlesRequest
  | ValidateJWTSVIDRequest string string

subsection \<open>Collaborators\<close>

text \<open>
  The parsers of the other packages are parameters of the model: \<^verbatim>\<open>x509svid.ParseRaw\<close>,
  \<^verbatim>\<open>spiffeid.TrustDomainFromString\<close>, the trust domain's \<^verbatim>\<open>String\<close>,
  \<^verbatim>\<open>x509.ParseCertificates\<close>, \<^verbatim>\<open>jwtbundle.Parse\<close>, a JWT bundle's \<^verbatim>\<open>TrustDomain\<close> and
  \<^verbatim>\<open>jwtsvid.ParseInsecure\<close>.
\<close>

record ('svid, 'td, 'cert, 'jb, 'jwt) lib =
  ParseRaw :: "bytes \<Rightarrow> bytes \<Rightarrow> error + 'svid"
  TrustDomainFromString :: "string \<Rightarrow> error + 'td"
  TrustDomain_String :: "'td \<Rightarrow> string"
  ParseCertificates :: "bytes \<Rightarrow> error + 'cert list"
  jwtbundle_Parse :: "'td \<Rightarrow> bytes \<Rightarrow> error + 'jb"
  jwtbundle_TrustDomain :: "'jb \<Rightarrow> 'td"
  ParseInsecure :: "string \<Rightarrow> string list \<Rightarrow> error + 'jwt"

text \<open>
  Modelled from the spec: the package \<^verbatim>\<open>bundle/x509bundle\<close> is missing. A Trust Bundle
  has a trust-domain identifier and an ordered list of authority certificates
  (section 3), which is what \<^verbatim>\<open>FromX509Authorities\<close> is handed.
\<close>

record ('td, 'cert) x509bundle =
  trustDomain :: 'td
  x509Authorities :: "'cert list"

text \<open>
  Modelled from the spec: \<^verbatim>\<open>x509bundle.FromX509Authorities\<close> is missing; it makes the
  Trust Bundle of a trust domain and its authority certificates (section 3).
\<close>

definition FromX509Authorities :: "'td \<Rightarrow> 'cert list \<Rightarrow> ('td, 'cert) x509bundle" where
  "FromX509Authorities td certs = \<lparr>trustDomain = td, x509Authorities = certs\<rparr>"

text \<open>
  Modelled from the spec: the bundle sets of \<^verbatim>\<open>bundle/x509bundle\<close> and
  \<^verbatim>\<open>bundle/jwtbundle\<close> are missing. A Bundle Set is "an immutable collection of bundles
  keyed by trust-domain identifier" (section 3), built from a list of bundles
  (section 6): a list of entries with one entry for each key, the bundles added in the
  order given.
\<close>

type_synonym ('td, 'b) bundle_set = "('td \<times> 'b) list"

text \<open>
  Modelled from the spec: \<^verbatim>\<open>NewSet\<close> is missing; "given a list of bundles, returns an
  immutable keyed set" (section 6). Of the bundles of one trust domain the set keeps
  one, here the last given.
\<close>

definition NewSet :: "('b \<Rightarrow> 'td) \<Rightarrow> 'b list \<Rightarrow> ('td, 'b) bundle_set" where
  "NewSet key bundles = foldl (\<lambda>s b. AList.update (key b) b s) [] bundles"

text \<open>
  Modelled from the spec: the number of bundles a Bundle Set contains (section 8 counts
  the bundles of a context).
\<close>

definition Len :: "('td, 'b) bundle_set \<Rightarrow> nat" where
  "Len s = length s"

record ('svid, 'td, 'cert) X509Context =
  SVIDs :: "'svid list"
  Bundles :: "('td, ('td, 'cert) x509bundle) bundle_set"

subsection \<open>Message translation\<close>

text \<open>
  The loop of \<^verbatim>\<open>parseX509SVIDs\<close>: \<^verbatim>\<open>for i := 0; i < n; i++\<close>, reading
  \<^verbatim>\<open>resp.Svids[i]\<close>, which panics when \<^verbatim>\<open>i\<close> is not below the length of the slice.
\<close>

function parseX509SVIDs_loop ::
  "('svid, 'td, 'cert, 'jb, 'jwt) lib \<Rightarrow> X509SVID list \<Rightarrow> nat \<Rightarrow> nat \<Rightarrow> 'svid list
    \<Rightarrow> fault + 'svid list" where
  "parseX509SVIDs_loop L svs i n svids =
     (if i < n then
        (if i < length svs then
           (case ParseRaw L (X509Svid (svs ! i)) (X509SvidKey (svs ! i)) of
              Inl err \<Rightarrow> Inl (Err err)
            | Inr s \<Rightarrow> parseX509SVIDs_loop L svs (Suc i) n (svids @ [s]))
         else Inl (Panic (IndexOutOfRange i (length svs))))
      else Inr svids)"
  by pat_completeness auto
termination
  by (relation "measure (\<lambda>(L, svs, i, n, svids). n - i)") auto

definition parseX509SVIDs ::
  "('svid, 'td, 'cert, 'jb, 'jwt) lib \<Rightarrow> X509SVIDResponse \<Rightarrow> bool \<Rightarrow> fault + 'svid list" where
  "parseX509SVIDs L resp firstOnly =
     (let n = (if firstOnly then 1 else length (Svids resp)) in
      case parseX509SVIDs_loop L (Svids resp) 0 n [] of
        Inl f \<Rightarrow> Inl f
      | Inr svids \<Rightarrow>
          if length svids = 0 then Inl (Err (ErrorNew ''no SVIDs in response''))
          else Inr svids)"

definition parseX509Bundle ::
  "('svid, 'td, 'cert, 'jb, 'jwt) lib \<Rightarrow> string \<Rightarrow> bytes \<Rightarrow> error + ('td, 'cert) x509bundle" where
  "parseX509Bundle L spiffeID bundle =
     (case TrustDomainFromString L spiffeID of
        Inl err \<Rightarrow> Inl err
      | Inr td \<Rightarrow>
          (case ParseCertificates L bundle of
             Inl err \<Rightarrow> Inl err
           | Inr certs \<Rightarrow>
               if length certs = 0
               then Inl (ErrorFmt ''empty X.509 bundle for trust domain %q''
                                  (TrustDomain_String L td))
               else Inr (FromX509Authorities td certs)))"

text \<open>The two loops of \<^verbatim>\<open>parseX509Bundles\<close>, appending to \<^verbatim>\<open>bundles\<close>.\<close>

fun svid_bundles ::
  "('svid, 'td, 'cert, 'jb, 'jwt) lib \<Rightarrow> X509SVID list \<Rightarrow> ('td, 'cert) x509bundle list
    \<Rightarrow> error + ('td, 'cert) x509bundle list" where
  "svid_bundles L [] bundles = Inr bundles"
| "svid_bundles L (svid # rest) bundles =
     (case parseX509Bundle L (SpiffeId svid) (Bundle svid) of
        Inl err \<Rightarrow> Inl err
      | Inr b \<Rightarrow> svid_bundles L rest (bundles @ [b]))"

fun federated_bundles ::
  "('svid, 'td, 'cert, 'jb, 'jwt) lib \<Rightarrow> (string \<times> bytes) list \<Rightarrow> ('td, 'cert) x509bundle list
    \<Rightarrow> error + ('td, 'cert) x509bundle list" where
  "federated_bundles L [] bundles = Inr bundles"
| "federated_bundles L ((tdID, bundle) # rest) bundles =
     (case parseX509Bundle L tdID bundle of
        Inl err \<Rightarrow> Inl err
      | Inr b \<Rightarrow> federated_bundles L rest (bundles @ [b]))"

text \<open>The list \<^verbatim>\<open>parseX509Bundles\<close> hands to \<^verbatim>\<open>x509bundle.NewSet\<close>.\<close>

definition x509_bundle_list ::
  "('svid, 'td, 'cert, 'jb, 'jwt) lib \<Rightarrow> X509SVIDResponse \<Rightarrow> error + ('td, 'cert) x509bundle list" where
  "x509_bundle_list L resp =
     (case svid_bundles L (Svids resp) [] of
        Inl err \<Rightarrow> Inl err
      | Inr bundles \<Rightarrow> federated_bundles L (FederatedBundles resp) bundles)"

definition parseX509Bundles ::
  "('svid, 'td, 'cert, 'jb, 'jwt) lib \<Rightarrow> X509SVIDResponse
    \<Rightarrow> error + ('td, ('td, 'cert) x509bundle) bundle_set" where
  "parseX509Bundles L resp =
     (case x509_bundle_list L resp of
        Inl err \<Rightarrow> Inl err
      | Inr bundles \<Rightarrow> Inr (NewSet trustDomain bundles))"

definition parseX509Context ::
  "('svid, 'td, 'cert, 'jb, 'jwt) lib \<Rightarrow> X509SVIDResponse
    \<Rightarrow> fault + ('svid, 'td, 'cert) X509Context" where
  "parseX509Context L resp =
     (case parseX509SVIDs L resp False of
        Inl f \<Rightarrow> Inl f
      | Inr svids \<Rightarrow>
          (case parseX509Bundles L resp of
             Inl err \<Rightarrow> Inl (Err err)
           | Inr bundles \<Rightarrow> Inr \<lparr>SVIDs = svids, Bundles = bundles\<rparr>))"

fun jwt_bundles ::
  "('svid, 'td, 'cert, 'jb, 'jwt) lib \<Rightarrow> (string \<times> bytes) list \<Rightarrow> 'jb list \<Rightarrow> error + 'jb list" where
  "jwt_bundles L [] bundles = Inr bundles"
| "jwt_bundles L ((tdID, b) # rest) bundles =
     (case TrustDomainFromString L tdID of
        Inl err \<Rightarrow> Inl err
      | Inr td \<Rightarrow>
          (case jwtbundle_Parse L td b of
             Inl err \<Rightarrow> Inl err
           | Inr b' \<Rightarrow> jwt_bundles L rest (bundles @ [b'])))"

definition parseJWTSVIDBundles ::
  "('svid, 'td, 'cert, 'jb, 'jwt) lib \<Rightarrow> JWTBundlesResponse \<Rightarrow> error + ('td, 'jb) bundle_set" where
  "parseJWTSVIDBundles L resp =
     (case jwt_bundles L (jwt_Bundles resp) [] of
        Inl err \<Rightarrow> Inl err
      | Inr bundles \<Rightarrow> Inr (NewSet (jwtbundle_TrustDomain L) bundles))"

subsection \<open>Contexts, the backoff, the client's state\<close>

text \<open>
  Of a \<^verbatim>\<open>context.Context\<close> the model keeps the outgoing metadata, which is what a remote
  call sends with it; whether and when the context is done is an input of the operation
  that waits for it. \<^verbatim>\<open>metadata.Pairs\<close> of one key and one value is the metadata
  with that key (lower case already) and that one value, and
  \<^verbatim>\<open>metadata.NewOutgoingContext\<close> attaches it, replacing what was there.
  \<^verbatim>\<open>context.WithCancel\<close> derives a context with the same values.
\<close>

type_synonym metadata = "(string \<times> string list) list"

record Context =
  outgoing_md :: "metadata option"

definition metadata_Pairs :: "string \<Rightarrow> string \<Rightarrow> metadata" where
  "metadata_Pairs k v = [(k, [v])]"

definition NewOutgoingContext :: "Context \<Rightarrow> metadata \<Rightarrow> Context" where
  "NewOutgoingContext ctx md = ctx\<lparr>outgoing_md := Some md\<rparr>"

definition context_WithCancel :: "Context \<Rightarrow> Context" where
  "context_WithCancel ctx = ctx"

definition withHeader :: "Context \<Rightarrow> Context" where
  "withHeader ctx =
     (let header = metadata_Pairs ''workload.spiffe.io'' ''true''
      in NewOutgoingContext ctx header)"

text \<open>
  Modelled from the spec: the file of the \<^verbatim>\<open>backoff\<close> type is missing. The Backoff
  Policy (section 4.1) is a "stateful exponential-backoff calculator with reset": each
  \<^verbatim>\<open>Duration\<close> follows "exponential growth from a configured minimum", "bounded above
  by a configured maximum", and \<^verbatim>\<open>Reset\<close> "returns the policy to its initial state
  (minimum duration on the next call)".
\<close>

type_synonym duration = nat

record backoff =
  InitialDelay :: duration
  MaxDelay :: duration
  grown :: nat

text \<open>
  Modelled from the spec: \<^verbatim>\<open>Duration\<close> is missing; it is the \<^verbatim>\<open>next()\<close> of section 4.1:
  the minimum doubled once for each call since the last reset, capped by the maximum.
\<close>

definition Duration :: "backoff \<Rightarrow> duration \<times> backoff" where
  "Duration b = (min (InitialDelay b * 2 ^ grown b) (MaxDelay b), b\<lparr>grown := Suc (grown b)\<rparr>)"

text \<open>
  Modelled from the spec: \<^verbatim>\<open>Reset\<close> is missing; it is the \<^verbatim>\<open>reset()\<close> of section 4.1.
\<close>

definition Reset :: "backoff \<Rightarrow> backoff" where
  "Reset b = b\<lparr>grown := 0\<rparr>"

text \<open>
  What the client does to the outside world, in order: a remote call with its request
  and context, a line given to the configured logger (format and arguments), the timer
  \<^verbatim>\<open>time.After\<close> armed with a duration, and the calls of the watcher's methods.
\<close>

datatype log_arg = ErrArg error | DurationArg duration

datatype ('x, 'j) event =
    RPC request Context
  | Debugf string "log_arg list"
  | Errorf string "log_arg list"
  | TimeAfter duration
  | OnX509ContextUpdate 'x
  | OnX509ContextWatchError error
  | OnJWTBundlesUpdate 'j
  | OnJWTBundlesWatchError error

text \<open>
  The state of a \<^verbatim>\<open>Client\<close>: its one \<^verbatim>\<open>backoff\<close> field, and the trace of its effects.
\<close>

record ('x, 'j) Client =
  backoff :: backoff
  trace :: "('x, 'j) event list"

definition emit :: "('x, 'j) event \<Rightarrow> ('x, 'j) Client \<Rightarrow> ('x, 'j) Client" where
  "emit e c = c\<lparr>trace := trace c @ [e]\<rparr>"

subsection \<open>One-shot operations\<close>

text \<open>
  What the agent answers is an input. For a server-streaming call it is the error of
  opening the stream, or else the result of the first \<^verbatim>\<open>stream.Recv()\<close>; for a unary
  call it is the error or the response.
\<close>

type_synonym 'r stream_reply = "error + (error + 'r)"

definition FetchX509SVID ::
  "('svid, 'td, 'cert, 'jb, 'jwt) lib \<Rightarrow> ('x, 'j) Client \<Rightarrow> Context
    \<Rightarrow> X509SVIDResponse stream_reply \<Rightarrow> (fault + 'svid) \<times> ('x, 'j) Client" where
  "FetchX509SVID L c ctx reply =
     (let ctx = context_WithCancel (withHeader ctx);
          c = emit (RPC X509SVIDRequest ctx) c
      in case reply of
           Inl err \<Rightarrow> (Inl (Err err), c)
         | Inr recv \<Rightarrow>
             (case recv of
                Inl err \<Rightarrow> (Inl (Err err), c)
              | Inr resp \<Rightarrow>
                  (case parseX509SVIDs L resp True of
                     Inl f \<Rightarrow> (Inl f, c)
                   | Inr svids \<Rightarrow>
                       (if 0 < length svids then (Inr (svids ! 0), c)
                        else (Inl (Panic (IndexOutOfRange 0 (length svids))), c)))))"

definition FetchX509SVIDs ::
  "('svid, 'td, 'cert, 'jb, 'jwt) lib \<Rightarrow> ('x, 'j) Client \<Rightarrow> Context
    \<Rightarrow> X509SVIDResponse stream_reply \<Rightarrow> (fault + 'svid list) \<times> ('x, 'j) Client" where
  "FetchX509SVIDs L c ctx reply =
     (let ctx = context_WithCancel (withHeader ctx);
          c = emit (RPC X509SVIDRequest ctx) c
      in case reply of
           Inl err \<Rightarrow> (Inl (Err err), c)
         | Inr recv \<Rightarrow>
             (case recv of
                Inl err \<Rightarrow> (Inl (Err err), c)
              | Inr resp \<Rightarrow> (parseX509SVIDs L resp False, c)))"

definition FetchX509Bundles ::
  "('svid, 'td, 'cert, 'jb, 'jwt) lib \<Rightarrow> ('x, 'j) Client \<Rightarrow> Context
    \<Rightarrow> X509SVIDResponse stream_reply
    \<Rightarrow> (error + ('td, ('td, 'cert) x509bundle) bundle_set) \<times> ('x, 'j) Client" where
  "FetchX509Bundles L c ctx reply =
     (let ctx = context_WithCancel (withHeader ctx);
          c = emit (RPC X509SVIDRequest ctx) c
      in case reply of
           Inl err \<Rightarrow> (Inl err, c)
         | Inr recv \<Rightarrow>
             (case recv of
                Inl err \<Rightarrow> (Inl err, c)
              | Inr resp \<Rightarrow> (parseX509Bundles L resp, c)))"

definition FetchX509Context ::
  "('svid, 'td, 'cert, 'jb, 'jwt) lib \<Rightarrow> ('x, 'j) Client \<Rightarrow> Context
    \<Rightarrow> X509SVIDResponse stream_reply
    \<Rightarrow> (fault + ('svid, 'td, 'cert) X509Context) \<times> ('x, 'j) Client" where
  "FetchX509Context L c ctx reply =
     (let ctx = context_WithCancel (withHeader ctx);
          c = emit (RPC X509SVIDRequest ctx) c
      in case reply of
           Inl err \<Rightarrow> (Inl (Err err), c)
         | Inr recv \<Rightarrow>
             (case recv of
                Inl err \<Rightarrow> (Inl (Err err), c)
              | Inr resp \<Rightarrow> (parseX509Context L resp, c)))"

text \<open>
  \<^verbatim>\<open>jwtsvid.Params\<close>; of the subject the model keeps the string its \<^verbatim>\<open>String\<close>
  method gives.
\<close>

record Params =
  Audience :: string
  ExtraAudiences :: "string list"
  Subject_String :: string

definition FetchJWTSVID ::
  "('svid, 'td, 'cert, 'jb, 'jwt) lib \<Rightarrow> ('x, 'j) Client \<Rightarrow> Context \<Rightarrow> Params
    \<Rightarrow> error + JWTSVIDResponse \<Rightarrow> (error + 'jwt) \<times> ('x, 'j) Client" where
  "FetchJWTSVID L c ctx params reply =
     (let ctx = context_WithCancel (withHeader ctx);
          audience = Audience params # ExtraAudiences params;
          c = emit (RPC (JWTSVIDRequest (Subject_String params) audience) ctx) c
      in case reply of
           Inl err \<Rightarrow> (Inl err, c)
         | Inr resp \<Rightarrow>
             (if length (jwt_Svids resp) = 0
              then (Inl (ErrorNew ''there were no SVIDs in the response''), c)
              else (ParseInsecure L (Svid (jwt_Svids resp ! 0)) audience, c)))"

definition FetchJWTBundles ::
  "('svid, 'td, 'cert, 'jb, 'jwt) lib \<Rightarrow> ('x, 'j) Client \<Rightarrow> Context
    \<Rightarrow> JWTBundlesResponse stream_reply \<Rightarrow> (error + ('td, 'jb) bundle_set) \<times> ('x, 'j) Client" where
  "FetchJWTBundles L c ctx reply =
     (let ctx = context_WithCancel (withHeader ctx);
          c = emit (RPC JWTBundlesRequest ctx) c
      in case reply of
           Inl err \<Rightarrow> (Inl err, c)
         | Inr recv \<Rightarrow>
             (case recv of
                Inl err \<Rightarrow> (Inl err, c)
              | Inr resp \<Rightarrow> (parseJWTSVIDBundles L resp, c)))"

definition ValidateJWTSVID ::
  "('svid, 'td, 'cert, 'jb, 'jwt) lib \<Rightarrow> ('x, 'j) Client \<Rightarrow> Context \<Rightarrow> string \<Rightarrow> string
    \<Rightarrow> error + ValidateJWTSVIDResponse \<Rightarrow> (error + 'jwt) \<times> ('x, 'j) Client" where
  "ValidateJWTSVID L c ctx token audience reply =
     (let ctx = context_WithCancel (withHeader ctx);
          c = emit (RPC (ValidateJWTSVIDRequest token audience) ctx) c
      in case reply of
           Inl err \<Rightarrow> (Inl err, c)
         | Inr resp \<Rightarrow> (ParseInsecure L token [audience], c))"

subsection \<open>Watches\<close>

text \<open>
  \<^verbatim>\<open>handleWatchError\<close>. It is handed the error a watch returned, which is never nil.
  The \<^verbatim>\<open>select\<close> waits for the timer and for the context; which of the two comes
  first is an input: the timer, or the context with the error \<^verbatim>\<open>ctx.Err()\<close> gives.
  The result is the error returned, \<open>None\<close> for nil.
\<close>

datatype selected = TimerFired | ContextDone error

definition handleWatchError ::
  "('x, 'j) Client \<Rightarrow> selected \<Rightarrow> error \<Rightarrow> error option \<times> ('x, 'j) Client" where
  "handleWatchError c sel err =
     (let code = status_Code err in
      if code = Canceled then (Some err, c)
      else if code = InvalidArgument
      then (Some err, emit (Errorf ''Canceling watch: %v'' [ErrArg err]) c)
      else
        (let c = emit (Errorf ''Failed to watch the Workload API: %v'' [ErrArg err]) c;
             (d, b) = Duration (backoff c);
             c = c\<lparr>backoff := b\<rparr>;
             c = emit (Debugf ''Retrying watch in %s'' [DurationArg d]) c;
             c = emit (TimeAfter d) c
         in case sel of
              TimerFired \<Rightarrow> (None, c)
            | ContextDone e \<Rightarrow> (Some e, c)))"

text \<open>
  A stream is the list of the results its \<^verbatim>\<open>Recv\<close> gives, one after the other. The
  loop of a watch leaves only on a failed \<^verbatim>\<open>Recv\<close>: when the list ends before one,
  the watch is still waiting in \<^verbatim>\<open>Recv\<close> and has not returned, which is \<open>None\<close>.
\<close>

type_synonym 'r stream = "(error + 'r) list"

fun watchX509Context_loop ::
  "('svid, 'td, 'cert, 'jb, 'jwt) lib \<Rightarrow> (('svid, 'td, 'cert) X509Context, 'j) Client
    \<Rightarrow> X509SVIDResponse stream
    \<Rightarrow> fault option \<times> (('svid, 'td, 'cert) X509Context, 'j) Client" where
  "watchX509Context_loop L c [] = (None, c)"
| "watchX509Context_loop L c (Inl err # rest) = (Some (Err err), c)"
| "watchX509Context_loop L c (Inr resp # rest) =
     (let c = c\<lparr>backoff := Reset (backoff c)\<rparr> in
      case parseX509Context L resp of
        Inl (Err err) \<Rightarrow>
          watchX509Context_loop L
            (emit (OnX509ContextWatchError err)
               (emit (Errorf ''Failed to parse X509-SVID response: %v'' [ErrArg err]) c)) rest
      | Inl (Panic p) \<Rightarrow> (Some (Panic p), c)
      | Inr x509Context \<Rightarrow>
          watchX509Context_loop L (emit (OnX509ContextUpdate x509Context) c) rest)"

definition watchX509Context ::
  "('svid, 'td, 'cert, 'jb, 'jwt) lib \<Rightarrow> (('svid, 'td, 'cert) X509Context, 'j) Client
    \<Rightarrow> Context \<Rightarrow> error + X509SVIDResponse stream
    \<Rightarrow> fault option \<times> (('svid, 'td, 'cert) X509Context, 'j) Client" where
  "watchX509Context L c ctx opened =
     (let ctx = context_WithCancel (withHeader ctx);
          c = emit (Debugf ''Watching X.509 contexts'' []) c;
          c = emit (RPC X509SVIDRequest ctx) c
      in case opened of
           Inl err \<Rightarrow> (Some (Err err), c)
         | Inr stream \<Rightarrow> watchX509Context_loop L c stream)"

fun watchJWTBundles_loop ::
  "('svid, 'td, 'cert, 'jb, 'jwt) lib \<Rightarrow> ('x, ('td, 'jb) bundle_set) Client
    \<Rightarrow> JWTBundlesResponse stream
    \<Rightarrow> error option \<times> ('x, ('td, 'jb) bundle_set) Client" where
  "watchJWTBundles_loop L c [] = (None, c)"
| "watchJWTBundles_loop L c (Inl err # rest) = (Some err, c)"
| "watchJWTBundles_loop L c (Inr resp # rest) =
     (let c = c\<lparr>backoff := Reset (backoff c)\<rparr> in
      case parseJWTSVIDBundles L resp of
        Inl err \<Rightarrow>
          watchJWTBundles_loop L
            (emit (OnJWTBundlesWatchError err)
               (emit (Errorf ''Failed to parse JWT bundle response: %v'' [ErrArg err]) c)) rest
      | Inr jwtbundleSet \<Rightarrow>
          watchJWTBundles_loop L (emit (OnJWTBundlesUpdate jwtbundleSet) c) rest)"

definition watchJWTBundles ::
  "('svid, 'td, 'cert, 'jb, 'jwt) lib \<Rightarrow> ('x, ('td, 'jb) bundle_set) Client
    \<Rightarrow> Context \<Rightarrow> error + JWTBundlesResponse stream
    \<Rightarrow> error option \<times> ('x, ('td, 'jb) bundle_set) Client" where
  "watchJWTBundles L c ctx opened =
     (let ctx = context_WithCancel (withHeader ctx);
          c = emit (Debugf ''Watching JWT bundles'' []) c;
          c = emit (RPC JWTBundlesRequest ctx) c
      in case opened of
           Inl err \<Rightarrow> (Some err, c)
         | Inr stream \<Rightarrow> watchJWTBundles_loop L c stream)"

text \<open>
  The retry loops \<^verbatim>\<open>WatchX509Context\<close> and \<^verbatim>\<open>WatchJWTBundles\<close>. Each round of the
  loop has its inputs: what opening the stream gives, and which case of the
  \<^verbatim>\<open>select\<close> in \<^verbatim>\<open>handleWatchError\<close> comes first. When the rounds given are used
  up the watch has not returned, which is \<open>None\<close>.
\<close>

record 'r round =
  opened :: "error + 'r stream"
  selects :: selected

fun WatchX509Context ::
  "('svid, 'td, 'cert, 'jb, 'jwt) lib \<Rightarrow> (('svid, 'td, 'cert) X509Context, 'j) Client
    \<Rightarrow> Context \<Rightarrow> X509SVIDResponse round list
    \<Rightarrow> fault option \<times> (('svid, 'td, 'cert) X509Context, 'j) Client" where
  "WatchX509Context L c ctx [] = (None, c)"
| "WatchX509Context L c ctx (r # rounds) =
     (case watchX509Context L c ctx (opened r) of
        (None, c) \<Rightarrow> (None, c)
      | (Some (Panic p), c) \<Rightarrow> (Some (Panic p), c)
      | (Some (Err err), c) \<Rightarrow>
          (case handleWatchError (emit (OnX509ContextWatchError err) c) (selects r) err of
             (Some err, c) \<Rightarrow> (Some (Err err), c)
           | (None, c) \<Rightarrow> WatchX509Context L c ctx rounds))"

fun WatchJWTBundles ::
  "('svid, 'td, 'cert, 'jb, 'jwt) lib \<Rightarrow> ('x, ('td, 'jb) bundle_set) Client
    \<Rightarrow> Context \<Rightarrow> JWTBundlesResponse round list
    \<Rightarrow> error option \<times> ('x, ('td, 'jb) bundle_set) Client" where
  "WatchJWTBundles L c ctx [] = (None, c)"
| "WatchJWTBundles L c ctx (r # rounds) =
     (case watchJWTBundles L c ctx (opened r) of
        (None, c) \<Rightarrow> (None, c)
      | (Some err, c) \<Rightarrow>
          (case handleWatchError (emit (OnJWTBundlesWatchError err) c) (selects r) err of
             (Some err, c) \<Rightarrow> (Some err, c)
           | (None, c) \<Rightarrow> WatchJWTBundles L c ctx rounds))"

subsection \<open>Reading a trace, reading a stream\<close>

text \<open>The remote calls of a trace, and the timers armed in it, in order.\<close>

fun call_of :: "('x, 'j) event \<Rightarrow> (request \<times> Context) list" where
  "call_of (RPC req ctx) = [(req, ctx)]"
| "call_of e = []"

definition calls :: "('x, 'j) event list \<Rightarrow> (request \<times> Context) list" where
  "calls tr = concat (map call_of tr)"

fun timer_of :: "('x, 'j) event \<Rightarrow> duration list" where
  "timer_of (TimeAfter d) = [d]"
| "timer_of e = []"

definition timers :: "('x, 'j) event list \<Rightarrow> duration list" where
  "timers tr = concat (map timer_of tr)"

text \<open>
  The failure that ends a round of a watch: the error of opening the stream, or the
  first failed \<^verbatim>\<open>Recv\<close> of the stream; \<open>None\<close> when the stream has not failed.
\<close>

fun stream_error :: "'r stream \<Rightarrow> error option" where
  "stream_error [] = None"
| "stream_error (Inl err # rest) = Some err"
| "stream_error (Inr resp # rest) = stream_error rest"

definition round_error :: "'r round \<Rightarrow> error option" where
  "round_error r = (case opened r of Inl err \<Rightarrow> Some err | Inr s \<Rightarrow> stream_error s)"

text \<open>
  The two classes of \<^verbatim>\<open>handleWatchError\<close>: a failure is terminal when its code is
  \<^verbatim>\<open>codes.Canceled\<close> or \<^verbatim>\<open>codes.InvalidArgument\<close>. A round is retried when its
  stream fails with a failure that is not terminal and the timer fires before the
  context is done.
\<close>

definition terminal :: "error \<Rightarrow> bool" where
  "terminal err = (status_Code err = Canceled \<or> status_Code err = InvalidArgument)"

definition retried :: "'r round \<Rightarrow> bool" where
  "retried r =
     (case round_error r of
        None \<Rightarrow> False
      | Some err \<Rightarrow> \<not> terminal err \<and> selects r = TimerFired)"

subsection \<open>Collaborators to compute with\<close>

text \<open>
  One instance of the collaborators, for the concrete runs below. An X509-SVID is its
  chain and its key, both not empty; a trust domain is the host part of a SPIFFE ID or
  the name itself; every byte of a bundle stands for one certificate; a JWT bundle
  is its trust domain and its content, not empty; a token is parsed when not empty.
\<close>

definition example_lib ::
  "(bytes \<times> bytes, string, 8 word, string \<times> bytes, string \<times> string list) lib" where
  "example_lib =
     \<lparr>ParseRaw = (\<lambda>chain key.
         if chain = [] \<or> key = [] then Inl (ErrorNew ''malformed X509-SVID'')
         else Inr (chain, key)),
      TrustDomainFromString = (\<lambda>s.
         let name = takeWhile (\<lambda>ch. ch \<noteq> CHR ''/'')
                      (if take 9 s = ''spiffe://'' then drop 9 s else s)
         in if name = [] then Inl (ErrorNew ''trust domain is empty'') else Inr name),
      TrustDomain_String = (\<lambda>td. td),
      ParseCertificates = (\<lambda>raw. Inr raw),
      jwtbundle_Parse = (\<lambda>td raw.
         if raw = [] then Inl (ErrorNew ''unable to parse JWKS'') else Inr (td, raw)),
      jwtbundle_TrustDomain = fst,
      ParseInsecure = (\<lambda>token audience.
         if token = [] then Inl (ErrorNew ''unable to parse JWT token'')
         else Inr (token, audience))\<rparr>"

text \<open>Two identity entries of one trust domain, a fresh client, a bare context.\<close>

definition svid_a :: X509SVID where
  "svid_a = \<lparr>SpiffeId = ''spiffe://example.org/a'', X509Svid = [1], X509SvidKey = [2],
              Bundle = [3]\<rparr>"

definition svid_b :: X509SVID where
  "svid_b = \<lparr>SpiffeId = ''spiffe://example.org/b'', X509Svid = [4], X509SvidKey = [5],
              Bundle = [3]\<rparr>"

definition client0 :: "('x, 'j) Client" where
  "client0 = \<lparr>backoff = \<lparr>InitialDelay = 1, MaxDelay = 30, grown = 0\<rparr>, trace = []\<rparr>"

definition ctx0 :: Context where
  "ctx0 = \<lparr>outgoing_md = None\<rparr>"

text \<open>
  Rounds of a watch: the agent is down (the stream cannot be opened, and the timer
  fires), and the call is cancelled.
\<close>

definition agent_down :: "'r round" where
  "agent_down = \<lparr>opened = Inl (StatusError Unavailable ''agent down''), selects = TimerFired\<rparr>"

definition cancelled :: "'r round" where
  "cancelled = \<lparr>opened = Inl (StatusError Canceled ''context canceled''),
                 selects = ContextDone ContextCanceled\<rparr>"

section \<open>Facts about the message translation\<close>

text \<open>The definitions a concrete run unfolds.\<close>

lemmas run_defs =
  parseX509Context_def parseX509SVIDs_def parseX509Bundles_def x509_bundle_list_def
  parseX509Bundle_def parseJWTSVIDBundles_def NewSet_def FromX509Authorities_def Len_def
  example_lib_def emit_def withHeader_def metadata_Pairs_def NewOutgoingContext_def
  context_WithCancel_def Duration_def Reset_def handleWatchError_def
  watchX509Context_def watchJWTBundles_def round_error_def terminal_def
  svid_a_def svid_b_def client0_def ctx0_def agent_down_def Let_def
  parseX509SVIDs_loop.simps

declare parseX509SVIDs_loop.simps [simp del]

lemma loop_Inr:
  "parseX509SVIDs_loop L svs i n acc = Inr r \<Longrightarrow> n \<le> length svs \<Longrightarrow> i \<le> n \<Longrightarrow>
   \<exists>ds. r = acc @ ds \<and>
     list_all2 (\<lambda>s d. ParseRaw L (X509Svid s) (X509SvidKey s) = Inr d) (take (n - i) (drop i svs)) ds"
proof (induction L svs i n acc rule: parseX509SVIDs_loop.induct)
  case (1 L svs i n svids)
  show ?case
  proof (cases "i < n")
    case False
    with 1 show ?thesis by (simp add: parseX509SVIDs_loop.simps[of L svs i n svids])
  next
    case True
    with 1 have il: "i < length svs" by simp
    from True il "1.prems"(1) obtain s where
      p: "ParseRaw L (X509Svid (svs ! i)) (X509SvidKey (svs ! i)) = Inr s" and
      rec: "parseX509SVIDs_loop L svs (Suc i) n (svids @ [s]) = Inr r"
      by (simp add: parseX509SVIDs_loop.simps[of L svs i n svids] split: sum.splits)
    from "1.IH"[OF True il p rec] "1.prems" True obtain ds where
      ds: "r = (svids @ [s]) @ ds"
        "list_all2 (\<lambda>s d. ParseRaw L (X509Svid s) (X509SvidKey s) = Inr d) (take (n - Suc i) (drop (Suc i) svs)) ds"
      by auto
    have "take (n - i) (drop i svs) = svs ! i # take (n - Suc i) (drop (Suc i) svs)"
      using True il by (metis Cons_nth_drop_Suc Suc_diff_Suc take_Suc_Cons)
    with ds p show ?thesis by simp
  qed
qed

lemma loop_no_panic:
  "n \<le> length svs \<Longrightarrow> parseX509SVIDs_loop L svs i n acc \<noteq> Inl (Panic p)"
proof (induction L svs i n acc rule: parseX509SVIDs_loop.induct)
  case (1 L svs i n svids)
  then show ?case
    by (simp add: parseX509SVIDs_loop.simps[of L svs i n svids] split: sum.splits)
qed

lemma parseX509SVIDs_first:
  "parseX509SVIDs L resp True =
     (if Svids resp = [] then Inl (Panic (IndexOutOfRange 0 0))
      else case ParseRaw L (X509Svid (Svids resp ! 0)) (X509SvidKey (Svids resp ! 0)) of
             Inl err \<Rightarrow> Inl (Err err) | Inr s \<Rightarrow> Inr [s])"
  by (simp add: parseX509SVIDs_def parseX509SVIDs_loop.simps[of L "Svids resp" 0]
        parseX509SVIDs_loop.simps[of L "Svids resp" "Suc 0"] split: sum.splits)

lemma parseX509SVIDs_all_empty:
  "Svids resp = [] \<Longrightarrow> parseX509SVIDs L resp False = Inl (Err (ErrorNew ''no SVIDs in response''))"
  by (simp add: parseX509SVIDs_def parseX509SVIDs_loop.simps[of L "[]" 0])

lemma parseX509SVIDs_all:
  assumes "parseX509SVIDs L resp False = Inr svids"
  shows "list_all2 (\<lambda>s d. ParseRaw L (X509Svid s) (X509SvidKey s) = Inr d) (Svids resp) svids"
proof -
  from assms have "parseX509SVIDs_loop L (Svids resp) 0 (length (Svids resp)) [] = Inr svids"
    by (simp add: parseX509SVIDs_def split: sum.splits if_splits)
  from loop_Inr[OF this] show ?thesis by simp
qed

lemma parseX509SVIDs_no_panic: "parseX509SVIDs L resp False \<noteq> Inl (Panic p)"
  using loop_no_panic[of "length (Svids resp)" "Svids resp" L 0 "[]" p]
  by (auto simp add: parseX509SVIDs_def split: sum.splits)

lemma parseX509Context_no_panic: "parseX509Context L resp \<noteq> Inl (Panic p)"
  using parseX509SVIDs_no_panic[of L resp p]
  by (auto simp add: parseX509Context_def split: sum.splits)

lemma svid_bundles_Inr:
  "svid_bundles L svs acc = Inr r \<Longrightarrow>
   \<exists>bs. r = acc @ bs \<and> list_all2 (\<lambda>s b. parseX509Bundle L (SpiffeId s) (Bundle s) = Inr b) svs bs"
proof (induction svs arbitrary: acc)
  case Nil
  then show ?case by simp
next
  case (Cons s svs)
  from Cons.prems obtain b where
    b: "parseX509Bundle L (SpiffeId s) (Bundle s) = Inr b" and
    rec: "svid_bundles L svs (acc @ [b]) = Inr r"
    by (auto split: sum.splits)
  from Cons.IH[OF rec] obtain bs where
    "r = (acc @ [b]) @ bs"
    "list_all2 (\<lambda>s b. parseX509Bundle L (SpiffeId s) (Bundle s) = Inr b) svs bs"
    by blast
  with b have "r = acc @ (b # bs) \<and>
    list_all2 (\<lambda>s b. parseX509Bundle L (SpiffeId s) (Bundle s) = Inr b) (s # svs) (b # bs)"
    by simp
  then show ?case by blast
qed

lemma federated_bundles_Inr:
  "federated_bundles L fs acc = Inr r \<Longrightarrow>
   \<exists>bs. r = acc @ bs \<and> list_all2 (\<lambda>f b. parseX509Bundle L (fst f) (snd f) = Inr b) fs bs"
proof (induction fs arbitrary: acc)
  case Nil
  then show ?case by simp
next
  case (Cons f fs)
  obtain tdID raw where f: "f = (tdID, raw)" by (cases f)
  from Cons.prems f obtain b where
    b: "parseX509Bundle L tdID raw = Inr b" and
    rec: "federated_bundles L fs (acc @ [b]) = Inr r"
    by (auto split: sum.splits)
  from Cons.IH[OF rec] obtain bs where
    "r = (acc @ [b]) @ bs"
    "list_all2 (\<lambda>f b. parseX509Bundle L (fst f) (snd f) = Inr b) fs bs"
    by blast
  with b f have "r = acc @ (b # bs) \<and>
    list_all2 (\<lambda>f b. parseX509Bundle L (fst f) (snd f) = Inr b) (f # fs) (b # bs)"
    by simp
  then show ?case by blast
qed

lemma NewSet_keys_aux:
  "distinct (map fst acc) \<Longrightarrow>
   distinct (map fst (foldl (\<lambda>s b. AList.update (key b) b s) acc bs)) \<and>
   set (map fst (foldl (\<lambda>s b. AList.update (key b) b s) acc bs)) = set (map fst acc) \<union> key ` set bs"
proof (induction bs arbitrary: acc)
  case Nil
  then show ?case by simp
next
  case (Cons b bs)
  have d: "distinct (map fst (AList.update (key b) b acc))"
    using Cons.prems by (rule distinct_update)
  have s: "set (map fst (AList.update (key b) b acc)) = insert (key b) (set (map fst acc))"
    using dom_update[of "key b" b acc] by simp
  from Cons.IH[OF d] s show ?case by auto
qed

lemma Len_NewSet: "Len (NewSet key bs) = card (key ` set bs)"
proof -
  have "distinct (map fst (NewSet key bs))" "set (map fst (NewSet key bs)) = key ` set bs"
    using NewSet_keys_aux[of "[]" key bs] by (simp_all add: NewSet_def)
  then show ?thesis
    by (metis Len_def distinct_card length_map)
qed

lemma Len_NewSet_le: "Len (NewSet key bs) \<le> length bs"
  by (metis Len_NewSet card_image_le card_length le_trans List.finite_set)

lemma Len_NewSet_distinct: "distinct (map key bs) \<Longrightarrow> Len (NewSet key bs) = length bs"
  by (metis Len_NewSet distinct_card length_map set_map)


section \<open>Facts about traces and watches\<close>

lemma calls_append [simp]: "calls (tr @ tr') = calls tr @ calls tr'"
  by (simp add: calls_def)

lemma timers_append [simp]: "timers (tr @ tr') = timers tr @ timers tr'"
  by (simp add: timers_def)

lemma calls_Nil [simp]: "calls [] = []"
  by (simp add: calls_def)

lemma calls_Cons [simp]: "calls (e # tr) = call_of e @ calls tr"
  by (simp add: calls_def)

lemma timers_Nil [simp]: "timers [] = []"
  by (simp add: timers_def)

lemma timers_Cons [simp]: "timers (e # tr) = timer_of e @ timers tr"
  by (simp add: timers_def)

lemma trace_emit [simp]: "trace (emit e c) = trace c @ [e]"
  by (simp add: emit_def)

lemma backoff_emit [simp]: "backoff (emit e c) = backoff c"
  by (simp add: emit_def)

lemma Reset_Reset [simp]: "Reset (Reset b) = Reset b"
  by (simp add: Reset_def)

lemma WithCancel_withHeader [simp]:
  "context_WithCancel (withHeader ctx) = withHeader ctx"
  by (simp add: context_WithCancel_def)

lemma x509_loop_fst:
  "fst (watchX509Context_loop L c s) = map_option Err (stream_error s)"
  by (induction L c s rule: watchX509Context_loop.induct)
     (auto simp: Let_def parseX509Context_no_panic split: sum.splits fault.splits)

lemma x509_loop_calls:
  "calls (trace (snd (watchX509Context_loop L c s))) = calls (trace c)"
  by (induction L c s rule: watchX509Context_loop.induct)
     (auto simp: Let_def split: sum.splits fault.splits)

lemma x509_loop_timers:
  "timers (trace (snd (watchX509Context_loop L c s))) = timers (trace c)"
  by (induction L c s rule: watchX509Context_loop.induct)
     (auto simp: Let_def split: sum.splits fault.splits)


lemma jwt_loop_fst:
  "fst (watchJWTBundles_loop L c s) = stream_error s"
  by (induction L c s rule: watchJWTBundles_loop.induct)
     (auto simp: Let_def split: sum.splits)

lemma jwt_loop_calls:
  "calls (trace (snd (watchJWTBundles_loop L c s))) = calls (trace c)"
  by (induction L c s rule: watchJWTBundles_loop.induct)
     (auto simp: Let_def split: sum.splits)

lemma jwt_loop_timers:
  "timers (trace (snd (watchJWTBundles_loop L c s))) = timers (trace c)"
  by (induction L c s rule: watchJWTBundles_loop.induct)
     (auto simp: Let_def split: sum.splits)


lemma x509_watch_fst:
  "fst (watchX509Context L c ctx (opened r)) = map_option Err (round_error r)"
  by (simp add: watchX509Context_def round_error_def x509_loop_fst Let_def split: sum.splits)

lemma x509_watch_calls:
  "calls (trace (snd (watchX509Context L c ctx op))) =
     calls (trace c) @ [(X509SVIDRequest, withHeader ctx)]"
  by (simp add: watchX509Context_def x509_loop_calls Let_def split: sum.splits)

lemma x509_watch_timers:
  "timers (trace (snd (watchX509Context L c ctx op))) = timers (trace c)"
  by (simp add: watchX509Context_def x509_loop_timers Let_def split: sum.splits)


lemma jwt_watch_fst:
  "fst (watchJWTBundles L c ctx (opened r)) = round_error r"
  by (simp add: watchJWTBundles_def round_error_def jwt_loop_fst Let_def split: sum.splits)

lemma jwt_watch_calls:
  "calls (trace (snd (watchJWTBundles L c ctx op))) =
     calls (trace c) @ [(JWTBundlesRequest, withHeader ctx)]"
  by (simp add: watchJWTBundles_def jwt_loop_calls Let_def split: sum.splits)

lemma jwt_watch_timers:
  "timers (trace (snd (watchJWTBundles L c ctx op))) = timers (trace c)"
  by (simp add: watchJWTBundles_def jwt_loop_timers Let_def split: sum.splits)


lemma handle_terminal:
  "terminal err \<Longrightarrow>
   fst (handleWatchError c sel err) = Some err \<and>
   backoff (snd (handleWatchError c sel err)) = backoff c \<and>
   timers (trace (snd (handleWatchError c sel err))) = timers (trace c) \<and>
   calls (trace (snd (handleWatchError c sel err))) = calls (trace c)"
  by (auto simp: handleWatchError_def terminal_def Let_def)

lemma handle_transient:
  "\<not> terminal err \<Longrightarrow>
   fst (handleWatchError c sel err) = (case sel of TimerFired \<Rightarrow> None | ContextDone e \<Rightarrow> Some e) \<and>
   backoff (snd (handleWatchError c sel err)) = snd (Duration (backoff c)) \<and>
   timers (trace (snd (handleWatchError c sel err))) = timers (trace c) @ [fst (Duration (backoff c))] \<and>
   calls (trace (snd (handleWatchError c sel err))) = calls (trace c)"
  by (auto simp: handleWatchError_def terminal_def Let_def split: prod.splits selected.splits)

lemma WatchX509Context_step:
  "WatchX509Context L c ctx (r # rounds) =
     (let w = watchX509Context L c ctx (opened r) in
      case round_error r of
        None \<Rightarrow> (None, snd w)
      | Some err \<Rightarrow>
          (let h = handleWatchError (emit (OnX509ContextWatchError err) (snd w)) (selects r) err in
           if terminal err then (Some (Err err), snd h)
           else case selects r of
                  TimerFired \<Rightarrow> WatchX509Context L (snd h) ctx rounds
                | ContextDone e \<Rightarrow> (Some (Err e), snd h)))"
proof -
  obtain res c1 where w: "watchX509Context L c ctx (opened r) = (res, c1)"
    by (cases "watchX509Context L c ctx (opened r)")
  with x509_watch_fst[of L c ctx r] have res: "res = map_option Err (round_error r)" by simp
  show ?thesis
  proof (cases "round_error r")
    case None
    with w res show ?thesis by simp
  next
    case (Some err)
    obtain hr c2 where h: "handleWatchError (emit (OnX509ContextWatchError err) c1) (selects r) err = (hr, c2)"
      by (cases "handleWatchError (emit (OnX509ContextWatchError err) c1) (selects r) err")
    show ?thesis
    proof (cases "terminal err")
      case True
      from handle_terminal[OF True, of "emit (OnX509ContextWatchError err) c1" "selects r"] h
      have "hr = Some err" by simp
      with w res Some h True show ?thesis by simp
    next
      case False
      from handle_transient[OF False, of "emit (OnX509ContextWatchError err) c1" "selects r"] h
      have "hr = (case selects r of TimerFired \<Rightarrow> None | ContextDone e \<Rightarrow> Some e)" by simp
      with w res Some h False show ?thesis by (simp split: selected.splits)
    qed
  qed
qed

lemma WatchJWTBundles_step:
  "WatchJWTBundles L c ctx (r # rounds) =
     (let w = watchJWTBundles L c ctx (opened r) in
      case round_error r of
        None \<Rightarrow> (None, snd w)
      | Some err \<Rightarrow>
          (let h = handleWatchError (emit (OnJWTBundlesWatchError err) (snd w)) (selects r) err in
           if terminal err then (Some err, snd h)
           else case selects r of
                  TimerFired \<Rightarrow> WatchJWTBundles L (snd h) ctx rounds
                | ContextDone e \<Rightarrow> (Some e, snd h)))"
proof -
  obtain res c1 where w: "watchJWTBundles L c ctx (opened r) = (res, c1)"
    by (cases "watchJWTBundles L c ctx (opened r)")
  with jwt_watch_fst[of L c ctx r] have res: "res = round_error r" by simp
  show ?thesis
  proof (cases "round_error r")
    case None
    with w res show ?thesis by simp
  next
    case (Some err)
    obtain hr c2 where h: "handleWatchError (emit (OnJWTBundlesWatchError err) c1) (selects r) err = (hr, c2)"
      by (cases "handleWatchError (emit (OnJWTBundlesWatchError err) c1) (selects r) err")
    show ?thesis
    proof (cases "terminal err")
      case True
      from handle_terminal[OF True, of "emit (OnJWTBundlesWatchError err) c1" "selects r"] h
      have "hr = Some err" by simp
      with w res Some h True show ?thesis by simp
    next
      case False
      from handle_transient[OF False, of "emit (OnJWTBundlesWatchError err) c1" "selects r"] h
      have "hr = (case selects r of TimerFired \<Rightarrow> None | ContextDone e \<Rightarrow> Some e)" by simp
      with w res Some h False show ?thesis by (simp split: selected.splits)
    qed
  qed
qed

lemma x509_round_calls:
  "calls (trace (snd (handleWatchError (emit e (snd (watchX509Context L c ctx op))) sel err))) =
     calls (trace c) @ [(X509SVIDRequest, withHeader ctx)] @ call_of e"
  by (cases "terminal err") (simp_all add: handle_terminal handle_transient x509_watch_calls)

lemma jwt_round_calls:
  "calls (trace (snd (handleWatchError (emit e (snd (watchJWTBundles L c ctx op))) sel err))) =
     calls (trace c) @ [(JWTBundlesRequest, withHeader ctx)] @ call_of e"
  by (cases "terminal err") (simp_all add: handle_terminal handle_transient jwt_watch_calls)

lemma WatchX509Context_calls:
  "\<exists>k\<le>length rounds. calls (trace (snd (WatchX509Context L c ctx rounds))) =
      calls (trace c) @ replicate k (X509SVIDRequest, withHeader ctx)"
proof (induction rounds arbitrary: c)
  case Nil
  then show ?case by simp
next
  case (Cons r rounds)
  let ?one = "(X509SVIDRequest, withHeader ctx)"
  let ?w = "watchX509Context L c ctx (opened r)"
  show ?case
  proof (cases "round_error r")
    case None
    then have "calls (trace (snd (WatchX509Context L c ctx (r # rounds)))) =
        calls (trace c) @ replicate 1 ?one"
      by (simp add: WatchX509Context_step x509_watch_calls del: WatchX509Context.simps)
    then show ?thesis by (intro exI[of _ 1]) simp
  next
    case (Some err)
    let ?h = "handleWatchError (emit (OnX509ContextWatchError err) (snd ?w)) (selects r) err"
    have hc: "calls (trace (snd ?h)) = calls (trace c) @ [?one]"
      by (simp add: x509_round_calls)
    show ?thesis
    proof (cases "terminal err \<or> selects r \<noteq> TimerFired")
      case True
      with Some have "calls (trace (snd (WatchX509Context L c ctx (r # rounds)))) =
          calls (trace c) @ replicate 1 ?one"
        using hc by (auto simp add: WatchX509Context_step Let_def
            simp del: WatchX509Context.simps split: selected.splits)
      then show ?thesis by (intro exI[of _ 1]) simp
    next
      case False
      with Some have eq: "WatchX509Context L c ctx (r # rounds) = WatchX509Context L (snd ?h) ctx rounds"
        by (simp add: WatchX509Context_step Let_def del: WatchX509Context.simps)
      from Cons.IH[of "snd ?h"] obtain k where
        k: "k \<le> length rounds"
           "calls (trace (snd (WatchX509Context L (snd ?h) ctx rounds))) =
              calls (trace (snd ?h)) @ replicate k ?one"
        by blast
      with eq hc have "calls (trace (snd (WatchX509Context L c ctx (r # rounds)))) =
          calls (trace c) @ replicate (Suc k) ?one"
        by (simp add: replicate_app_Cons_same)
      with k(1) show ?thesis by (intro exI[of _ "Suc k"]) simp
    qed
  qed
qed

lemma WatchJWTBundles_calls:
  "\<exists>k\<le>length rounds. calls (trace (snd (WatchJWTBundles L c ctx rounds))) =
      calls (trace c) @ replicate k (JWTBundlesRequest, withHeader ctx)"
proof (induction rounds arbitrary: c)
  case Nil
  then show ?case by simp
next
  case (Cons r rounds)
  let ?one = "(JWTBundlesRequest, withHeader ctx)"
  let ?w = "watchJWTBundles L c ctx (opened r)"
  show ?case
  proof (cases "round_error r")
    case None
    then have "calls (trace (snd (WatchJWTBundles L c ctx (r # rounds)))) =
        calls (trace c) @ replicate 1 ?one"
      by (simp add: WatchJWTBundles_step jwt_watch_calls del: WatchJWTBundles.simps)
    then show ?thesis by (intro exI[of _ 1]) simp
  next
    case (Some err)
    let ?h = "handleWatchError (emit (OnJWTBundlesWatchError err) (snd ?w)) (selects r) err"
    have hc: "calls (trace (snd ?h)) = calls (trace c) @ [?one]"
      by (simp add: jwt_round_calls)
    show ?thesis
    proof (cases "terminal err \<or> selects r \<noteq> TimerFired")
      case True
      with Some have "calls (trace (snd (WatchJWTBundles L c ctx (r # rounds)))) =
          calls (trace c) @ replicate 1 ?one"
        using hc by (auto simp add: WatchJWTBundles_step Let_def
            simp del: WatchJWTBundles.simps split: selected.splits)
      then show ?thesis by (intro exI[of _ 1]) simp
    next
      case False
      with Some have eq: "WatchJWTBundles L c ctx (r # rounds) = WatchJWTBundles L (snd ?h) ctx rounds"
        by (simp add: WatchJWTBundles_step Let_def del: WatchJWTBundles.simps)
      from Cons.IH[of "snd ?h"] obtain k where
        k: "k \<le> length rounds"
           "calls (trace (snd (WatchJWTBundles L (snd ?h) ctx rounds))) =
              calls (trace (snd ?h)) @ replicate k ?one"
        by blast
      with eq hc have "calls (trace (snd (WatchJWTBundles L c ctx (r # rounds)))) =
          calls (trace c) @ replicate (Suc k) ?one"
        by (simp add: replicate_app_Cons_same)
      with k(1) show ?thesis by (intro exI[of _ "Suc k"]) simp
    qed
  qed
qed

lemma x509_bundle_list_Inr:
  assumes "x509_bundle_list L resp = Inr bundles"
  shows "list_all2 (\<lambda>e b. parseX509Bundle L (fst e) (snd e) = Inr b)
           (map (\<lambda>s. (SpiffeId s, Bundle s)) (Svids resp) @ FederatedBundles resp) bundles"
proof -
  from assms obtain bs1 where
    1: "svid_bundles L (Svids resp) [] = Inr bs1" and
    2: "federated_bundles L (FederatedBundles resp) bs1 = Inr bundles"
    by (auto simp: x509_bundle_list_def split: sum.splits)
  from svid_bundles_Inr[OF 1] have
    a: "list_all2 (\<lambda>s b. parseX509Bundle L (SpiffeId s) (Bundle s) = Inr b) (Svids resp) bs1"
    by simp
  from federated_bundles_Inr[OF 2] obtain bs2 where
    b: "bundles = bs1 @ bs2"
       "list_all2 (\<lambda>f b. parseX509Bundle L (fst f) (snd f) = Inr b) (FederatedBundles resp) bs2"
    by blast
  from a have "list_all2 (\<lambda>e b. parseX509Bundle L (fst e) (snd e) = Inr b)
      (map (\<lambda>s. (SpiffeId s, Bundle s)) (Svids resp)) bs1"
    by (simp add: list_all2_map1)
  with b show ?thesis by (simp add: list_all2_appendI)
qed










lemma retriedD:
  "retried r \<Longrightarrow> \<exists>err. round_error r = Some err \<and> \<not> terminal err \<and> selects r = TimerFired"
  by (auto simp: retried_def split: option.splits)

lemma WatchX509Context_retried:
  "list_all retried rounds \<Longrightarrow>
   fst (WatchX509Context L c ctx rounds) = None \<and>
   calls (trace (snd (WatchX509Context L c ctx rounds))) =
     calls (trace c) @ replicate (length rounds) (X509SVIDRequest, withHeader ctx) \<and>
   length (timers (trace (snd (WatchX509Context L c ctx rounds)))) =
     length (timers (trace c)) + length rounds"
proof (induction rounds arbitrary: c)
  case Nil
  then show ?case by simp
next
  case (Cons r rounds)
  from Cons.prems obtain err where
    r: "round_error r = Some err" "\<not> terminal err" "selects r = TimerFired"
    using retriedD by auto
  let ?h = "handleWatchError (emit (OnX509ContextWatchError err)
              (snd (watchX509Context L c ctx (opened r)))) (selects r) err"
  from r have eq: "WatchX509Context L c ctx (r # rounds) = WatchX509Context L (snd ?h) ctx rounds"
    by (simp add: WatchX509Context_step Let_def del: WatchX509Context.simps)
  have hc: "calls (trace (snd ?h)) = calls (trace c) @ [(X509SVIDRequest, withHeader ctx)]"
    by (simp add: x509_round_calls)
  have ht: "length (timers (trace (snd ?h))) = length (timers (trace c)) + 1"
    using r(2) by (simp add: handle_transient x509_watch_timers)
  from Cons.prems have "list_all retried rounds" by simp
  from Cons.IH[OF this, of "snd ?h"] eq hc ht show ?case
    by (simp add: replicate_app_Cons_same)
qed

lemma WatchJWTBundles_retried:
  "list_all retried rounds \<Longrightarrow>
   fst (WatchJWTBundles L c ctx rounds) = None \<and>
   calls (trace (snd (WatchJWTBundles L c ctx rounds))) =
     calls (trace c) @ replicate (length rounds) (JWTBundlesRequest, withHeader ctx) \<and>
   length (timers (trace (snd (WatchJWTBundles L c ctx rounds)))) =
     length (timers (trace c)) + length rounds"
proof (induction rounds arbitrary: c)
  case Nil
  then show ?case by simp
next
  case (Cons r rounds)
  from Cons.prems obtain err where
    r: "round_error r = Some err" "\<not> terminal err" "selects r = TimerFired"
    using retriedD by auto
  let ?h = "handleWatchError (emit (OnJWTBundlesWatchError err)
              (snd (watchJWTBundles L c ctx (opened r)))) (selects r) err"
  from r have eq: "WatchJWTBundles L c ctx (r # rounds) = WatchJWTBundles L (snd ?h) ctx rounds"
    by (simp add: WatchJWTBundles_step Let_def del: WatchJWTBundles.simps)
  have hc: "calls (trace (snd ?h)) = calls (trace c) @ [(JWTBundlesRequest, withHeader ctx)]"
    by (simp add: jwt_round_calls)
  have ht: "length (timers (trace (snd ?h))) = length (timers (trace c)) + 1"
    using r(2) by (simp add: handle_transient jwt_watch_timers)
  from Cons.prems have "list_all retried rounds" by simp
  from Cons.IH[OF this, of "snd ?h"] eq hc ht show ?case
    by (simp add: replicate_app_Cons_same)
qed

lemma WatchX509Context_terminal:
  assumes "round_error r = Some err" and "terminal err"
  shows "fst (WatchX509Context L c ctx (r # rounds)) = Some (Err err) \<and>
         calls (trace (snd (WatchX509Context L c ctx (r # rounds)))) =
           calls (trace c) @ [(X509SVIDRequest, withHeader ctx)] \<and>
         timers (trace (snd (WatchX509Context L c ctx (r # rounds)))) = timers (trace c)"
  using assms
  by (simp add: WatchX509Context_step Let_def x509_round_calls handle_terminal x509_watch_timers
      del: WatchX509Context.simps)

lemma WatchJWTBundles_terminal:
  assumes "round_error r = Some err" and "terminal err"
  shows "fst (WatchJWTBundles L c ctx (r # rounds)) = Some err \<and>
         calls (trace (snd (WatchJWTBundles L c ctx (r # rounds)))) =
           calls (trace c) @ [(JWTBundlesRequest, withHeader ctx)] \<and>
         timers (trace (snd (WatchJWTBundles L c ctx (r # rounds)))) = timers (trace c)"
  using assms
  by (simp add: WatchJWTBundles_step Let_def jwt_round_calls handle_terminal jwt_watch_timers
      del: WatchJWTBundles.simps)

lemma WatchX509Context_transient:
  assumes "round_error r = Some err" and "\<not> terminal err"
  shows "(selects r = TimerFired \<longrightarrow>
            WatchX509Context L c ctx (r # rounds) =
              WatchX509Context L
                (snd (handleWatchError (emit (OnX509ContextWatchError err)
                        (snd (watchX509Context L c ctx (opened r)))) TimerFired err)) ctx rounds) \<and>
         (selects r = ContextDone e \<longrightarrow>
            fst (WatchX509Context L c ctx (r # rounds)) = Some (Err e) \<and>
            calls (trace (snd (WatchX509Context L c ctx (r # rounds)))) =
              calls (trace c) @ [(X509SVIDRequest, withHeader ctx)])"
  using assms
  by (simp add: WatchX509Context_step Let_def x509_round_calls del: WatchX509Context.simps)

lemma WatchJWTBundles_transient:
  assumes "round_error r = Some err" and "\<not> terminal err"
  shows "(selects r = TimerFired \<longrightarrow>
            WatchJWTBundles L c ctx (r # rounds) =
              WatchJWTBundles L
                (snd (handleWatchError (emit (OnJWTBundlesWatchError err)
                        (snd (watchJWTBundles L c ctx (opened r)))) TimerFired err)) ctx rounds) \<and>
         (selects r = ContextDone e \<longrightarrow>
            fst (WatchJWTBundles L c ctx (r # rounds)) = Some e \<and>
            calls (trace (snd (WatchJWTBundles L c ctx (r # rounds)))) =
              calls (trace c) @ [(JWTBundlesRequest, withHeader ctx)])"
  using assms
  by (simp add: WatchJWTBundles_step Let_def jwt_round_calls del: WatchJWTBundles.simps)

section \<open>The claims\<close>

text \<open>
  Claim C1, as the code has it. A watch resets the backoff on every message it
  receives, before it translates the message: so the backoff is reset also when the
  translation fails. On such a failure the watch logs it and calls the observer's error
  callback with it, does not end, and the valid message that follows reaches the
  observer's update callback. For \<^verbatim>\<open>watchX509Context\<close> and for \<^verbatim>\<open>watchJWTBundles\<close>.
\<close>

theorem malformed_message_in_watch:
  assumes "parseX509Context L bad = Inl (Err e)" and "parseX509Context L good = Inr x"
    and "parseJWTSVIDBundles L jbad = Inl je" and "parseJWTSVIDBundles L jgood = Inr js"
  shows
  "watchX509Context_loop L c [Inr bad] =
     (None, c\<lparr>backoff := Reset (backoff c),
              trace := trace c @ [Errorf ''Failed to parse X509-SVID response: %v'' [ErrArg e],
                                  OnX509ContextWatchError e]\<rparr>) \<and>
   watchX509Context_loop L c (Inr bad # Inr good # rest) =
     watchX509Context_loop L
       (c\<lparr>backoff := Reset (backoff c),
          trace := trace c @ [Errorf ''Failed to parse X509-SVID response: %v'' [ErrArg e],
                              OnX509ContextWatchError e, OnX509ContextUpdate x]\<rparr>) rest \<and>
   watchJWTBundles_loop L c' [Inr jbad] =
     (None, c'\<lparr>backoff := Reset (backoff c'),
               trace := trace c' @ [Errorf ''Failed to parse JWT bundle response: %v'' [ErrArg je],
                                    OnJWTBundlesWatchError je]\<rparr>) \<and>
   watchJWTBundles_loop L c' (Inr jbad # Inr jgood # rest') =
     watchJWTBundles_loop L
       (c'\<lparr>backoff := Reset (backoff c'),
           trace := trace c' @ [Errorf ''Failed to parse JWT bundle response: %v'' [ErrArg je],
                                OnJWTBundlesWatchError je, OnJWTBundlesUpdate js]\<rparr>) rest'"
  using assms by (simp add: emit_def Let_def)

text \<open>
  Claim C1, a run: an empty response (which fails translation), then a valid one.
\<close>

theorem malformed_message_in_watch_witness:
  "parseX509Context example_lib \<lparr>Svids = [], FederatedBundles = []\<rparr> =
     Inl (Err (ErrorNew ''no SVIDs in response'')) \<and>
   parseJWTSVIDBundles example_lib \<lparr>jwt_Bundles = [(''example.org'', [])]\<rparr> =
     Inl (ErrorNew ''unable to parse JWKS'') \<and>
   watchX509Context_loop example_lib (client0 :: (_, unit) Client)
     [Inr \<lparr>Svids = [], FederatedBundles = []\<rparr>, Inr \<lparr>Svids = [svid_a], FederatedBundles = []\<rparr>] =
     (None,
      \<lparr>backoff = \<lparr>InitialDelay = 1, MaxDelay = 30, grown = 0\<rparr>,
       trace = [Errorf ''Failed to parse X509-SVID response: %v''
                  [ErrArg (ErrorNew ''no SVIDs in response'')],
                OnX509ContextWatchError (ErrorNew ''no SVIDs in response''),
                OnX509ContextUpdate
                  \<lparr>SVIDs = [([1], [2])],
                   Bundles = [(''example.org'',
                               \<lparr>trustDomain = ''example.org'', x509Authorities = [3]\<rparr>)]\<rparr>]\<rparr>) \<and>
   watchJWTBundles_loop example_lib (client0 :: (unit, _) Client)
     [Inr \<lparr>jwt_Bundles = [(''example.org'', [])]\<rparr>, Inr \<lparr>jwt_Bundles = [(''example.org'', [9])]\<rparr>] =
     (None,
      \<lparr>backoff = \<lparr>InitialDelay = 1, MaxDelay = 30, grown = 0\<rparr>,
       trace = [Errorf ''Failed to parse JWT bundle response: %v''
                  [ErrArg (ErrorNew ''unable to parse JWKS'')],
                OnJWTBundlesWatchError (ErrorNew ''unable to parse JWKS''),
                OnJWTBundlesUpdate [(''example.org'', (''example.org'', [9]))]]\<rparr>)"
proof -
  have 1: "parseX509Context example_lib \<lparr>Svids = [], FederatedBundles = []\<rparr> =
     Inl (Err (ErrorNew ''no SVIDs in response''))"
    by (simp add: run_defs)
  have 2: "parseX509Context example_lib \<lparr>Svids = [svid_a], FederatedBundles = []\<rparr> =
     Inr \<lparr>SVIDs = [([1], [2])],
          Bundles = [(''example.org'',
                      \<lparr>trustDomain = ''example.org'', x509Authorities = [3]\<rparr>)]\<rparr>"
    by (simp add: run_defs)
  have 3: "parseJWTSVIDBundles example_lib \<lparr>jwt_Bundles = [(''example.org'', [])]\<rparr> =
     Inl (ErrorNew ''unable to parse JWKS'')"
    by (simp add: run_defs)
  have 4: "parseJWTSVIDBundles example_lib \<lparr>jwt_Bundles = [(''example.org'', [9])]\<rparr> =
     Inr [(''example.org'', (''example.org'', [9]))]"
    by (simp add: run_defs)
  from malformed_message_in_watch[OF 1 2 3 4, of client0 "[]" client0 "[]"] 1 3
  show ?thesis
    by (simp add: client0_def Reset_def)
qed

text \<open>
  Claim C1 as stated fails where it says the backoff is not reset. A client whose
  backoff has grown three times (the next wait is 8) receives a message with no
  identity entry, which fails translation: after it the backoff is back at its initial
  state (the next wait is 1).
\<close>

theorem malformed_message_resets_backoff:
  "parseX509Context example_lib \<lparr>Svids = [], FederatedBundles = []\<rparr> =
     Inl (Err (ErrorNew ''no SVIDs in response'')) \<and>
   fst (Duration (backoff (client0\<lparr>backoff := \<lparr>InitialDelay = 1, MaxDelay = 30, grown = 3\<rparr>\<rparr>
                              :: ((bytes \<times> bytes, string, 8 word) X509Context, unit) Client))) = 8 \<and>
   fst (Duration (backoff (snd (watchX509Context_loop example_lib
        (client0\<lparr>backoff := \<lparr>InitialDelay = 1, MaxDelay = 30, grown = 3\<rparr>\<rparr>
           :: ((bytes \<times> bytes, string, 8 word) X509Context, unit) Client)
        [Inr \<lparr>Svids = [], FederatedBundles = []\<rparr>])))) = 1 \<and>
   watchX509Context_loop example_lib
     (client0\<lparr>backoff := \<lparr>InitialDelay = 1, MaxDelay = 30, grown = 3\<rparr>\<rparr>
        :: ((bytes \<times> bytes, string, 8 word) X509Context, unit) Client)
     [Inr \<lparr>Svids = [], FederatedBundles = []\<rparr>] =
     (None,
      \<lparr>backoff = \<lparr>InitialDelay = 1, MaxDelay = 30, grown = 0\<rparr>,
       trace = [Errorf ''Failed to parse X509-SVID response: %v''
                  [ErrArg (ErrorNew ''no SVIDs in response'')],
                OnX509ContextWatchError (ErrorNew ''no SVIDs in response'')]\<rparr>)"
  by (simp add: run_defs)

text \<open>
  Claim C2, on the code. For a response with no identity entry, \<^verbatim>\<open>FetchX509SVIDs\<close>
  returns the error "no SVIDs in response", while \<^verbatim>\<open>FetchX509SVID\<close> returns nothing:
  with \<^verbatim>\<open>firstOnly\<close> the loop bound is 1 whatever the length, and reading
  \<^verbatim>\<open>resp.Svids[0]\<close> of the empty slice panics before the check of the length.
\<close>

theorem FetchX509SVID_empty_response:
  "fst (FetchX509SVID L c ctx (Inr (Inr \<lparr>Svids = [], FederatedBundles = fb\<rparr>))) =
     Inl (Panic (IndexOutOfRange 0 0)) \<and>
   fst (FetchX509SVIDs L c ctx (Inr (Inr \<lparr>Svids = [], FederatedBundles = fb\<rparr>))) =
     Inl (Err (ErrorNew ''no SVIDs in response''))"
  by (simp add: FetchX509SVID_def FetchX509SVIDs_def parseX509SVIDs_first
      parseX509SVIDs_all_empty Let_def)

text \<open>
  Claim C3, as the code has it. When \<^verbatim>\<open>parseX509Context\<close> succeeds on a response with N
  identity entries and F federated entries, the context holds exactly N documents, the
  parsed entries in order, and its bundle set is built from exactly N + F bundles: the
  parsed bundle of each identity entry, then of each federated entry, all of this one
  message. The set is keyed by trust domain, so it holds one bundle for each trust
  domain among them: at most N + F, and exactly N + F when the trust domains differ.
\<close>

theorem parseX509Context_counts:
  assumes "parseX509Context L resp = Inr x"
  shows "list_all2 (\<lambda>s d. ParseRaw L (X509Svid s) (X509SvidKey s) = Inr d) (Svids resp) (SVIDs x) \<and>
         length (SVIDs x) = length (Svids resp) \<and>
         (\<exists>bundles.
            list_all2 (\<lambda>e b. parseX509Bundle L (fst e) (snd e) = Inr b)
              (map (\<lambda>s. (SpiffeId s, Bundle s)) (Svids resp) @ FederatedBundles resp) bundles \<and>
            length bundles = length (Svids resp) + length (FederatedBundles resp) \<and>
            Bundles x = NewSet trustDomain bundles \<and>
            Len (Bundles x) = card (trustDomain ` set bundles) \<and>
            Len (Bundles x) \<le> length (Svids resp) + length (FederatedBundles resp) \<and>
            (distinct (map trustDomain bundles) \<longrightarrow>
               Len (Bundles x) = length (Svids resp) + length (FederatedBundles resp)))"
proof -
  from assms obtain svids bs where
    s: "parseX509SVIDs L resp False = Inr svids" and
    b: "parseX509Bundles L resp = Inr bs" and
    x: "x = \<lparr>SVIDs = svids, Bundles = bs\<rparr>"
    by (auto simp: parseX509Context_def split: sum.splits)
  from b obtain bundles where
    l: "x509_bundle_list L resp = Inr bundles" and bs: "bs = NewSet trustDomain bundles"
    by (auto simp: parseX509Bundles_def split: sum.splits)
  have docs: "list_all2 (\<lambda>s d. ParseRaw L (X509Svid s) (X509SvidKey s) = Inr d) (Svids resp) (SVIDs x)"
    using parseX509SVIDs_all[OF s] x by simp
  then have n: "length (SVIDs x) = length (Svids resp)"
    by (simp add: list_all2_lengthD)
  have all: "list_all2 (\<lambda>e b. parseX509Bundle L (fst e) (snd e) = Inr b)
      (map (\<lambda>s. (SpiffeId s, Bundle s)) (Svids resp) @ FederatedBundles resp) bundles"
    by (rule x509_bundle_list_Inr[OF l])
  then have len: "length bundles = length (Svids resp) + length (FederatedBundles resp)"
    using list_all2_lengthD by fastforce
  have set: "Bundles x = NewSet trustDomain bundles" using x bs by simp
  have "Len (Bundles x) = card (trustDomain ` set bundles)"
    "Len (Bundles x) \<le> length (Svids resp) + length (FederatedBundles resp)"
    "distinct (map trustDomain bundles) \<longrightarrow>
       Len (Bundles x) = length (Svids resp) + length (FederatedBundles resp)"
    using set len Len_NewSet[of trustDomain bundles] Len_NewSet_le[of trustDomain bundles]
      Len_NewSet_distinct[of trustDomain bundles] by simp_all
  with docs n all len set show ?thesis by blast
qed

text \<open>
  Claim C3, a run: one identity entry of \<^verbatim>\<open>example.org\<close> and one federated bundle of
  \<^verbatim>\<open>other.org\<close> give one document and two bundles.
\<close>

theorem parseX509Context_counts_witness:
  "parseX509Context example_lib \<lparr>Svids = [svid_a], FederatedBundles = [(''other.org'', [7, 8])]\<rparr> =
     Inr \<lparr>SVIDs = [([1], [2])],
          Bundles = [(''example.org'', \<lparr>trustDomain = ''example.org'', x509Authorities = [3]\<rparr>),
                     (''other.org'', \<lparr>trustDomain = ''other.org'', x509Authorities = [7, 8]\<rparr>)]\<rparr> \<and>
   length [([1::8 word], [2::8 word])] = 1 \<and>
   Len [(''example.org'', \<lparr>trustDomain = ''example.org'', x509Authorities = [3::8 word]\<rparr>),
        (''other.org'', \<lparr>trustDomain = ''other.org'', x509Authorities = [7, 8]\<rparr>)] = 1 + 1"
proof -
  have h: "parseX509Context example_lib \<lparr>Svids = [svid_a], FederatedBundles = [(''other.org'', [7, 8])]\<rparr> =
     Inr \<lparr>SVIDs = [([1], [2])],
          Bundles = [(''example.org'', \<lparr>trustDomain = ''example.org'', x509Authorities = [3]\<rparr>),
                     (''other.org'', \<lparr>trustDomain = ''other.org'', x509Authorities = [7, 8]\<rparr>)]\<rparr>"
    by (simp add: run_defs)
  from parseX509Context_counts[OF h] h show ?thesis by (auto simp: Len_def)
qed

text \<open>
  Claim C3 as stated fails when two entries share a trust domain: two identity entries
  of \<^verbatim>\<open>example.org\<close> and no federated bundle give two documents and a set of one
  bundle, not of two.
\<close>

theorem same_trust_domain_one_bundle:
  "parseX509Context example_lib \<lparr>Svids = [svid_a, svid_b], FederatedBundles = []\<rparr> =
     Inr \<lparr>SVIDs = [([1], [2]), ([4], [5])],
          Bundles = [(''example.org'', \<lparr>trustDomain = ''example.org'', x509Authorities = [3]\<rparr>)]\<rparr> \<and>
   length (Svids \<lparr>Svids = [svid_a, svid_b], FederatedBundles = []\<rparr>) +
     length (FederatedBundles \<lparr>Svids = [svid_a, svid_b], FederatedBundles = []\<rparr>) = 2 \<and>
   Len [(''example.org'', \<lparr>trustDomain = ''example.org'', x509Authorities = [3::8 word]\<rparr>)] = 1"
  by (simp add: run_defs)

text \<open>
  Claim C4. A failure whose code is \<^verbatim>\<open>Canceled\<close> or \<^verbatim>\<open>InvalidArgument\<close> is returned by
  \<^verbatim>\<open>handleWatchError\<close> as it is, with the backoff untouched and no timer armed, and the
  watch returns it having opened that one stream only. For every other failure
  \<^verbatim>\<open>handleWatchError\<close> takes the next duration of the backoff and arms the timer with
  it; when the timer fires first the result is nil and the watch goes on with the next
  round, opening a stream again; when the context is done first the watch returns the
  context's error. A watch whose rounds all fail so, the timer firing each time, has not
  returned, and has opened one stream and armed one timer for each round. For
  \<^verbatim>\<open>WatchX509Context\<close> and for \<^verbatim>\<open>WatchJWTBundles\<close>.
\<close>

theorem watch_failure_handling:
  fixes c :: "(('svid, 'td, 'cert) X509Context, ('td, 'jb) bundle_set) Client"
    and L :: "('svid, 'td, 'cert, 'jb, 'jwt) lib"
  shows
  "(terminal err \<longrightarrow>
      fst (handleWatchError c sel err) = Some err \<and>
      backoff (snd (handleWatchError c sel err)) = backoff c \<and>
      timers (trace (snd (handleWatchError c sel err))) = timers (trace c)) \<and>
   (\<not> terminal err \<longrightarrow>
      fst (handleWatchError c sel err) =
        (case sel of TimerFired \<Rightarrow> None | ContextDone e \<Rightarrow> Some e) \<and>
      backoff (snd (handleWatchError c sel err)) = snd (Duration (backoff c)) \<and>
      timers (trace (snd (handleWatchError c sel err))) =
        timers (trace c) @ [fst (Duration (backoff c))]) \<and>
   (round_error rx = Some err \<and> terminal err \<longrightarrow>
      fst (WatchX509Context L c ctx (rx # roundsx)) = Some (Err err) \<and>
      calls (trace (snd (WatchX509Context L c ctx (rx # roundsx)))) =
        calls (trace c) @ [(X509SVIDRequest, withHeader ctx)] \<and>
      timers (trace (snd (WatchX509Context L c ctx (rx # roundsx)))) = timers (trace c)) \<and>
   (round_error rj = Some err \<and> terminal err \<longrightarrow>
      fst (WatchJWTBundles L c ctx (rj # roundsj)) = Some err \<and>
      calls (trace (snd (WatchJWTBundles L c ctx (rj # roundsj)))) =
        calls (trace c) @ [(JWTBundlesRequest, withHeader ctx)] \<and>
      timers (trace (snd (WatchJWTBundles L c ctx (rj # roundsj)))) = timers (trace c)) \<and>
   (round_error rx = Some err \<and> \<not> terminal err \<and> selects rx = TimerFired \<longrightarrow>
      WatchX509Context L c ctx (rx # roundsx) =
        WatchX509Context L
          (snd (handleWatchError (emit (OnX509ContextWatchError err)
                  (snd (watchX509Context L c ctx (opened rx)))) TimerFired err)) ctx roundsx) \<and>
   (round_error rj = Some err \<and> \<not> terminal err \<and> selects rj = TimerFired \<longrightarrow>
      WatchJWTBundles L c ctx (rj # roundsj) =
        WatchJWTBundles L
          (snd (handleWatchError (emit (OnJWTBundlesWatchError err)
                  (snd (watchJWTBundles L c ctx (opened rj)))) TimerFired err)) ctx roundsj) \<and>
   (round_error rx = Some err \<and> \<not> terminal err \<and> selects rx = ContextDone e \<longrightarrow>
      fst (WatchX509Context L c ctx (rx # roundsx)) = Some (Err e) \<and>
      calls (trace (snd (WatchX509Context L c ctx (rx # roundsx)))) =
        calls (trace c) @ [(X509SVIDRequest, withHeader ctx)]) \<and>
   (round_error rj = Some err \<and> \<not> terminal err \<and> selects rj = ContextDone e \<longrightarrow>
      fst (WatchJWTBundles L c ctx (rj # roundsj)) = Some e \<and>
      calls (trace (snd (WatchJWTBundles L c ctx (rj # roundsj)))) =
        calls (trace c) @ [(JWTBundlesRequest, withHeader ctx)]) \<and>
   (list_all retried roundsx \<longrightarrow>
      fst (WatchX509Context L c ctx roundsx) = None \<and>
      calls (trace (snd (WatchX509Context L c ctx roundsx))) =
        calls (trace c) @ replicate (length roundsx) (X509SVIDRequest, withHeader ctx) \<and>
      length (timers (trace (snd (WatchX509Context L c ctx roundsx)))) =
        length (timers (trace c)) + length roundsx) \<and>
   (list_all retried roundsj \<longrightarrow>
      fst (WatchJWTBundles L c ctx roundsj) = None \<and>
      calls (trace (snd (WatchJWTBundles L c ctx roundsj))) =
        calls (trace c) @ replicate (length roundsj) (JWTBundlesRequest, withHeader ctx) \<and>
      length (timers (trace (snd (WatchJWTBundles L c ctx roundsj)))) =
        length (timers (trace c)) + length roundsj)"
proof (intro conjI impI)
  assume "terminal err"
  from handle_terminal[OF this, of c sel]
  show "fst (handleWatchError c sel err) = Some err"
    and "backoff (snd (handleWatchError c sel err)) = backoff c"
    and "timers (trace (snd (handleWatchError c sel err))) = timers (trace c)"
    by simp_all
next
  assume "\<not> terminal err"
  from handle_transient[OF this, of c sel]
  show "fst (handleWatchError c sel err) =
        (case sel of TimerFired \<Rightarrow> None | ContextDone e \<Rightarrow> Some e)"
    and "backoff (snd (handleWatchError c sel err)) = snd (Duration (backoff c))"
    and "timers (trace (snd (handleWatchError c sel err))) =
        timers (trace c) @ [fst (Duration (backoff c))]"
    by simp_all
next
  assume a: "round_error rx = Some err \<and> terminal err"
  from WatchX509Context_terminal[of rx err L c ctx roundsx] a
  show "fst (WatchX509Context L c ctx (rx # roundsx)) = Some (Err err)"
    and "calls (trace (snd (WatchX509Context L c ctx (rx # roundsx)))) =
        calls (trace c) @ [(X509SVIDRequest, withHeader ctx)]"
    and "timers (trace (snd (WatchX509Context L c ctx (rx # roundsx)))) = timers (trace c)"
    by simp_all
next
  assume a: "round_error rj = Some err \<and> terminal err"
  from WatchJWTBundles_terminal[of rj err L c ctx roundsj] a
  show "fst (WatchJWTBundles L c ctx (rj # roundsj)) = Some err"
    and "calls (trace (snd (WatchJWTBundles L c ctx (rj # roundsj)))) =
        calls (trace c) @ [(JWTBundlesRequest, withHeader ctx)]"
    and "timers (trace (snd (WatchJWTBundles L c ctx (rj # roundsj)))) = timers (trace c)"
    by simp_all
next
  assume a: "round_error rx = Some err \<and> \<not> terminal err \<and> selects rx = TimerFired"
  with WatchX509Context_transient[of rx err L c ctx roundsx]
  show "WatchX509Context L c ctx (rx # roundsx) =
        WatchX509Context L
          (snd (handleWatchError (emit (OnX509ContextWatchError err)
                  (snd (watchX509Context L c ctx (opened rx)))) TimerFired err)) ctx roundsx"
    by simp
next
  assume a: "round_error rj = Some err \<and> \<not> terminal err \<and> selects rj = TimerFired"
  with WatchJWTBundles_transient[of rj err L c ctx roundsj]
  show "WatchJWTBundles L c ctx (rj # roundsj) =
        WatchJWTBundles L
          (snd (handleWatchError (emit (OnJWTBundlesWatchError err)
                  (snd (watchJWTBundles L c ctx (opened rj)))) TimerFired err)) ctx roundsj"
    by simp
next
  assume a: "round_error rx = Some err \<and> \<not> terminal err \<and> selects rx = ContextDone e"
  with WatchX509Context_transient[of rx err L c ctx roundsx e]
  show "fst (WatchX509Context L c ctx (rx # roundsx)) = Some (Err e)"
    and "calls (trace (snd (WatchX509Context L c ctx (rx # roundsx)))) =
        calls (trace c) @ [(X509SVIDRequest, withHeader ctx)]"
    by simp_all
next
  assume a: "round_error rj = Some err \<and> \<not> terminal err \<and> selects rj = ContextDone e"
  with WatchJWTBundles_transient[of rj err L c ctx roundsj e]
  show "fst (WatchJWTBundles L c ctx (rj # roundsj)) = Some e"
    and "calls (trace (snd (WatchJWTBundles L c ctx (rj # roundsj)))) =
        calls (trace c) @ [(JWTBundlesRequest, withHeader ctx)]"
    by simp_all
next
  assume a: "list_all retried roundsx"
  from WatchX509Context_retried[OF a, of L c ctx]
  show "fst (WatchX509Context L c ctx roundsx) = None"
    and "calls (trace (snd (WatchX509Context L c ctx roundsx))) =
        calls (trace c) @ replicate (length roundsx) (X509SVIDRequest, withHeader ctx)"
    and "length (timers (trace (snd (WatchX509Context L c ctx roundsx)))) =
        length (timers (trace c)) + length roundsx"
    by simp_all
next
  assume a: "list_all retried roundsj"
  from WatchJWTBundles_retried[OF a, of L c ctx]
  show "fst (WatchJWTBundles L c ctx roundsj) = None"
    and "calls (trace (snd (WatchJWTBundles L c ctx roundsj))) =
        calls (trace c) @ replicate (length roundsj) (JWTBundlesRequest, withHeader ctx)"
    and "length (timers (trace (snd (WatchJWTBundles L c ctx roundsj)))) =
        length (timers (trace c)) + length roundsj"
    by simp_all
qed

text \<open>
  Claim C4, two runs: a cancelled call ends the X.509 watch at once, and three rounds
  with the agent down leave the JWT watch running after three calls.
\<close>

theorem watch_failure_handling_witness:
  "terminal (StatusError Canceled ''context canceled'') \<and>
   round_error (cancelled :: X509SVIDResponse round) =
     Some (StatusError Canceled ''context canceled'') \<and>
   fst (WatchX509Context example_lib (client0 :: (_, (string, string \<times> bytes) bundle_set) Client)
          ctx0 [cancelled, agent_down]) =
     Some (Err (StatusError Canceled ''context canceled'')) \<and>
   calls (trace (snd (WatchX509Context example_lib
          (client0 :: (_, (string, string \<times> bytes) bundle_set) Client) ctx0
          [cancelled, agent_down]))) = [(X509SVIDRequest, withHeader ctx0)] \<and>
   \<not> terminal (StatusError Unavailable ''agent down'') \<and>
   list_all retried [agent_down :: JWTBundlesResponse round, agent_down, agent_down] \<and>
   fst (WatchJWTBundles example_lib
          (client0 :: ((bytes \<times> bytes, string, 8 word) X509Context, _) Client) ctx0
          [agent_down, agent_down, agent_down]) = None \<and>
   calls (trace (snd (WatchJWTBundles example_lib
          (client0 :: ((bytes \<times> bytes, string, 8 word) X509Context, _) Client) ctx0
          [agent_down, agent_down, agent_down]))) =
     [(JWTBundlesRequest, withHeader ctx0), (JWTBundlesRequest, withHeader ctx0),
      (JWTBundlesRequest, withHeader ctx0)] \<and>
   length (timers (trace (snd (WatchJWTBundles example_lib
          (client0 :: ((bytes \<times> bytes, string, 8 word) X509Context, _) Client) ctx0
          [agent_down, agent_down, agent_down])))) = 3"
proof -
  have t: "terminal (StatusError Canceled ''context canceled'')"
    by (simp add: terminal_def)
  have r: "round_error (cancelled :: X509SVIDResponse round) =
     Some (StatusError Canceled ''context canceled'')"
    by (simp add: round_error_def cancelled_def)
  have n: "\<not> terminal (StatusError Unavailable ''agent down'')"
    by (simp add: terminal_def)
  have a: "list_all retried [agent_down :: JWTBundlesResponse round, agent_down, agent_down]"
    by (simp add: retried_def round_error_def agent_down_def terminal_def)
  have e: "calls (trace (client0 :: ((bytes \<times> bytes, string, 8 word) X509Context,
                                    (string, string \<times> bytes) bundle_set) Client)) = []"
    "timers (trace (client0 :: ((bytes \<times> bytes, string, 8 word) X509Context,
                                    (string, string \<times> bytes) bundle_set) Client)) = []"
    by (simp_all add: client0_def)
  note W1 = watch_failure_handling[where err = "StatusError Canceled ''context canceled''"
      and rx = cancelled and roundsx = "[agent_down]" and L = example_lib and c = client0
      and ctx = ctx0]
  note W2 = watch_failure_handling[where L = example_lib and c = client0 and ctx = ctx0
      and roundsj = "[agent_down, agent_down, agent_down]"]
  from W1 t r e have 1:
    "fst (WatchX509Context example_lib (client0 :: (_, (string, string \<times> bytes) bundle_set) Client)
          ctx0 [cancelled, agent_down]) =
       Some (Err (StatusError Canceled ''context canceled''))"
    "calls (trace (snd (WatchX509Context example_lib
          (client0 :: (_, (string, string \<times> bytes) bundle_set) Client) ctx0
          [cancelled, agent_down]))) = [(X509SVIDRequest, withHeader ctx0)]"
    by simp_all
  from W2 a e have 2:
    "fst (WatchJWTBundles example_lib
          (client0 :: ((bytes \<times> bytes, string, 8 word) X509Context, _) Client) ctx0
          [agent_down, agent_down, agent_down]) = None"
    "calls (trace (snd (WatchJWTBundles example_lib
          (client0 :: ((bytes \<times> bytes, string, 8 word) X509Context, _) Client) ctx0
          [agent_down, agent_down, agent_down]))) =
     [(JWTBundlesRequest, withHeader ctx0), (JWTBundlesRequest, withHeader ctx0),
      (JWTBundlesRequest, withHeader ctx0)]"
    "length (timers (trace (snd (WatchJWTBundles example_lib
          (client0 :: ((bytes \<times> bytes, string, 8 word) X509Context, _) Client) ctx0
          [agent_down, agent_down, agent_down])))) = 3"
    by (simp_all add: numeral_3_eq_3)
  from t r n a 1 2 show ?thesis by blast
qed




text \<open>
  Claim C6. For a response with at least two identity entries, \<^verbatim>\<open>FetchX509SVID\<close> returns
  what parsing the first entry of the message gives: its document when the entry
  parses, its error otherwise. The other entries are not looked at.
\<close>

theorem FetchX509SVID_returns_first:
  assumes "2 \<le> length (Svids resp)"
  shows "fst (FetchX509SVID L c ctx (Inr (Inr resp))) =
           (case ParseRaw L (X509Svid (Svids resp ! 0)) (X509SvidKey (Svids resp ! 0)) of
              Inl err \<Rightarrow> Inl (Err err)
            | Inr d \<Rightarrow> Inr d)"
proof -
  from assms have "Svids resp \<noteq> []" by auto
  then show ?thesis
    by (simp add: FetchX509SVID_def parseX509SVIDs_first Let_def split: sum.splits)
qed

theorem FetchX509SVID_returns_first_witness:
  "2 \<le> length (Svids \<lparr>Svids = [svid_a, svid_b], FederatedBundles = []\<rparr>) \<and>
   fst (FetchX509SVID example_lib (client0 :: (unit, unit) Client) ctx0
          (Inr (Inr \<lparr>Svids = [svid_a, svid_b], FederatedBundles = []\<rparr>))) = Inr ([1], [2])"
proof -
  have h: "2 \<le> length (Svids \<lparr>Svids = [svid_a, svid_b], FederatedBundles = []\<rparr>)"
    by simp
  from FetchX509SVID_returns_first[OF h, of example_lib] h show ?thesis
    by (simp add: example_lib_def svid_a_def)
qed

text \<open>
  Claim C7. The context \<^verbatim>\<open>withHeader\<close> makes carries the metadata
  \<^verbatim>\<open>workload.spiffe.io\<close> with the one value \<^verbatim>\<open>true\<close>, and every remote call of the client
  is made with such a context: each one-shot operation and each run of
  \<^verbatim>\<open>watchX509Context\<close> or \<^verbatim>\<open>watchJWTBundles\<close> makes exactly one call, with it, and all the
  calls of the retry loops, one for each stream opened, are made with it.
\<close>

theorem every_call_carries_header:
  fixes c :: "(('svid, 'td, 'cert) X509Context, ('td, 'jb) bundle_set) Client"
    and L :: "('svid, 'td, 'cert, 'jb, 'jwt) lib"
  shows
  "outgoing_md (withHeader ctx) = Some [(''workload.spiffe.io'', [''true''])] \<and>
   calls (trace (snd (FetchX509SVID L c ctx r1))) =
     calls (trace c) @ [(X509SVIDRequest, withHeader ctx)] \<and>
   calls (trace (snd (FetchX509SVIDs L c ctx r1))) =
     calls (trace c) @ [(X509SVIDRequest, withHeader ctx)] \<and>
   calls (trace (snd (FetchX509Bundles L c ctx r1))) =
     calls (trace c) @ [(X509SVIDRequest, withHeader ctx)] \<and>
   calls (trace (snd (FetchX509Context L c ctx r1))) =
     calls (trace c) @ [(X509SVIDRequest, withHeader ctx)] \<and>
   calls (trace (snd (FetchJWTSVID L c ctx params r2))) =
     calls (trace c) @
       [(JWTSVIDRequest (Subject_String params) (Audience params # ExtraAudiences params),
         withHeader ctx)] \<and>
   calls (trace (snd (FetchJWTBundles L c ctx r3))) =
     calls (trace c) @ [(JWTBundlesRequest, withHeader ctx)] \<and>
   calls (trace (snd (ValidateJWTSVID L c ctx token audience r4))) =
     calls (trace c) @ [(ValidateJWTSVIDRequest token audience, withHeader ctx)] \<and>
   calls (trace (snd (watchX509Context L c ctx o1))) =
     calls (trace c) @ [(X509SVIDRequest, withHeader ctx)] \<and>
   calls (trace (snd (watchJWTBundles L c ctx o2))) =
     calls (trace c) @ [(JWTBundlesRequest, withHeader ctx)] \<and>
   (\<exists>k\<le>length rounds1. calls (trace (snd (WatchX509Context L c ctx rounds1))) =
      calls (trace c) @ replicate k (X509SVIDRequest, withHeader ctx)) \<and>
   (\<exists>k\<le>length rounds2. calls (trace (snd (WatchJWTBundles L c ctx rounds2))) =
      calls (trace c) @ replicate k (JWTBundlesRequest, withHeader ctx))"
proof -
  have 0: "outgoing_md (withHeader ctx) = Some [(''workload.spiffe.io'', [''true''])]"
    by (simp add: withHeader_def metadata_Pairs_def NewOutgoingContext_def)
  have 1: "calls (trace (snd (FetchX509SVID L c ctx r1))) =
     calls (trace c) @ [(X509SVIDRequest, withHeader ctx)]"
    by (simp add: FetchX509SVID_def Let_def split: sum.splits)
  have 2: "calls (trace (snd (FetchX509SVIDs L c ctx r1))) =
     calls (trace c) @ [(X509SVIDRequest, withHeader ctx)]"
    by (simp add: FetchX509SVIDs_def Let_def split: sum.splits)
  have 3: "calls (trace (snd (FetchX509Bundles L c ctx r1))) =
     calls (trace c) @ [(X509SVIDRequest, withHeader ctx)]"
    by (simp add: FetchX509Bundles_def Let_def split: sum.splits)
  have 4: "calls (trace (snd (FetchX509Context L c ctx r1))) =
     calls (trace c) @ [(X509SVIDRequest, withHeader ctx)]"
    by (simp add: FetchX509Context_def Let_def split: sum.splits)
  have 5: "calls (trace (snd (FetchJWTSVID L c ctx params r2))) =
     calls (trace c) @
       [(JWTSVIDRequest (Subject_String params) (Audience params # ExtraAudiences params),
         withHeader ctx)]"
    by (simp add: FetchJWTSVID_def Let_def split: sum.splits)
  have 6: "calls (trace (snd (FetchJWTBundles L c ctx r3))) =
     calls (trace c) @ [(JWTBundlesRequest, withHeader ctx)]"
    by (simp add: FetchJWTBundles_def Let_def split: sum.splits)
  have 7: "calls (trace (snd (ValidateJWTSVID L c ctx token audience r4))) =
     calls (trace c) @ [(ValidateJWTSVIDRequest token audience, withHeader ctx)]"
    by (simp add: ValidateJWTSVID_def Let_def split: sum.splits)
  note 8 = x509_watch_calls[of L c ctx o1] and 9 = jwt_watch_calls[of L c ctx o2]
    and 10 = WatchX509Context_calls[of rounds1 L c ctx]
    and 11 = WatchJWTBundles_calls[of rounds2 L c ctx]
  from 0 1 2 3 4 5 6 7 8 9 10 11 show ?thesis by blast
qed

text \<open>
  Claim C8. \<^verbatim>\<open>ValidateJWTSVID\<close> sends the token and the audience to the agent. When the
  agent's call fails, the agent's error is the result, whatever the local parser would
  say of the token; when it succeeds, the result is what \<^verbatim>\<open>jwtsvid.ParseInsecure\<close> gives
  for the token and the one audience.
\<close>

theorem ValidateJWTSVID_local_parse:
  "ValidateJWTSVID L c ctx token audience (Inl err) =
     (Inl err, emit (RPC (ValidateJWTSVIDRequest token audience) (withHeader ctx)) c) \<and>
   ValidateJWTSVID (L\<lparr>ParseInsecure := p\<rparr>) c ctx token audience (Inl err) =
     ValidateJWTSVID L c ctx token audience (Inl err) \<and>
   ValidateJWTSVID L c ctx token audience (Inr resp) =
     (ParseInsecure L token [audience],
      emit (RPC (ValidateJWTSVIDRequest token audience) (withHeader ctx)) c)"
  by (simp add: ValidateJWTSVID_def Let_def)

text \<open>
  Claim C9. Whenever \<^verbatim>\<open>parseX509SVIDs\<close> returns without an error, the list it returns is
  not empty; so when \<^verbatim>\<open>FetchX509SVID\<close> has parsed the response with success, its read
  of \<^verbatim>\<open>svids[0]\<close> is in bounds and gives the result of the fetch.
\<close>

theorem parseX509SVIDs_result_nonempty:
  assumes "parseX509SVIDs L resp firstOnly = Inr svids"
  shows "0 < length svids \<and>
         (firstOnly \<longrightarrow> fst (FetchX509SVID L c ctx (Inr (Inr resp))) = Inr (svids ! 0))"
proof -
  from assms have ne: "0 < length svids"
    by (auto simp: parseX509SVIDs_def Let_def split: sum.splits if_splits)
  with assms show ?thesis
    by (auto simp: FetchX509SVID_def Let_def)
qed

theorem parseX509SVIDs_result_nonempty_witness:
  "parseX509SVIDs example_lib \<lparr>Svids = [svid_a], FederatedBundles = []\<rparr> True =
     Inr [([1], [2])] \<and>
   0 < length [([1::8 word], [2::8 word])] \<and>
   fst (FetchX509SVID example_lib (client0 :: (unit, unit) Client) ctx0
          (Inr (Inr \<lparr>Svids = [svid_a], FederatedBundles = []\<rparr>))) = Inr ([([1], [2])] ! 0)"
proof -
  have h: "parseX509SVIDs example_lib \<lparr>Svids = [svid_a], FederatedBundles = []\<rparr> True =
     Inr [([1], [2])]"
    by (simp add: parseX509SVIDs_first example_lib_def svid_a_def)
  from parseX509SVIDs_result_nonempty[OF h] h show ?thesis by simp
qed

text \<open>
  Claim C10, as the code has it. A JWT-bundles response with no bundle entry is not an
  error: \<^verbatim>\<open>parseJWTSVIDBundles\<close>, and so \<^verbatim>\<open>FetchJWTBundles\<close>, returns the bundle set built
  from no bundle, which has no entry; unlike the fetch of all X509-SVIDs,
  \<^verbatim>\<open>FetchX509SVIDs\<close>, which rejects a response with no identity entry.
\<close>

theorem parseJWTSVIDBundles_empty_response:
  "parseJWTSVIDBundles L \<lparr>jwt_Bundles = []\<rparr> = Inr (NewSet (jwtbundle_TrustDomain L) []) \<and>
   Len (NewSet (jwtbundle_TrustDomain L) []) = 0 \<and>
   fst (FetchJWTBundles L c ctx (Inr (Inr \<lparr>jwt_Bundles = []\<rparr>))) =
     Inr (NewSet (jwtbundle_TrustDomain L) []) \<and>
   fst (FetchX509SVIDs L c ctx (Inr (Inr \<lparr>Svids = [], FederatedBundles = []\<rparr>))) =
     Inl (Err (ErrorNew ''no SVIDs in response''))"
  by (simp add: parseJWTSVIDBundles_def FetchJWTBundles_def FetchX509SVIDs_def
      parseX509SVIDs_all_empty NewSet_def Len_def Let_def)

text \<open>
  Claim C10 as stated fails where it says that the identity-document fetches reject an
  empty response: on a response with no identity entry \<^verbatim>\<open>FetchX509SVID\<close> returns no
  error, it panics on \<^verbatim>\<open>resp.Svids[0]\<close>.
\<close>

theorem FetchX509SVID_does_not_reject_empty:
  "fst (FetchX509SVID example_lib (client0 :: (unit, unit) Client) ctx0
          (Inr (Inr \<lparr>Svids = [], FederatedBundles = []\<rparr>))) =
     Inl (Panic (IndexOutOfRange 0 0)) \<and>
   fst (FetchX509SVID example_lib (client0 :: (unit, unit) Client) ctx0
          (Inr (Inr \<lparr>Svids = [], FederatedBundles = []\<rparr>))) \<noteq>
     Inl (Err (ErrorNew ''no SVIDs in response''))"
  by (simp add: FetchX509SVID_def parseX509SVIDs_first Let_def)

end
